theory Spec2Isabelle
  imports Main "HOL-Library.Word"
begin

section \<open>Strings\<close>

text \<open>
  A JavaScript string is a sequence of UTF-16 code units; \<open>length\<close> is \<open>.length\<close>,
  \<open>take\<close>/\<open>drop\<close> are \<open>substring\<close>. A code unit is modelled by its numeric value
  (JavaScript's are below 65536; nothing below depends on the bound). \<open>utf16\<close> writes an
  ASCII literal of the source as such a sequence.
\<close>

type_synonym jsstring = "nat list"

definition utf16 :: "string \<Rightarrow> jsstring" where
  "utf16 s = map of_char s"

text \<open>
  The characters that \<open>\s\<close> in a regular expression and \<open>String.prototype.trim\<close> treat
  as white space: TAB, LF, VT, FF, CR, SPACE, NBSP, U+1680, U+2000..U+200A, U+2028, U+2029,
  U+202F, U+205F, U+3000, U+FEFF.
\<close>

definition isWhiteSpace :: "nat \<Rightarrow> bool" where
  "isWhiteSpace c \<longleftrightarrow>
     (9 \<le> c \<and> c \<le> 13) \<or> c = 32 \<or> c = 160 \<or> c = 5760 \<or> (8192 \<le> c \<and> c \<le> 8202) \<or>
     c = 8232 \<or> c = 8233 \<or> c = 8239 \<or> c = 8287 \<or> c = 12288 \<or> c = 65279"

definition trim :: "jsstring \<Rightarrow> jsstring" where
  "trim s = rev (dropWhile isWhiteSpace (rev (dropWhile isWhiteSpace s)))"

text \<open>\<open>!text || text.trim().length === 0\<close>: the guard for empty or white-space-only text.\<close>

definition isBlank :: "jsstring \<Rightarrow> bool" where
  "isBlank text \<longleftrightarrow> text = [] \<or> length (trim text) = 0"


section \<open>Data model (types/index.ts)\<close>

record translation_result =
  originalText :: jsstring
  translatedText :: jsstring
  timestamp :: int

record code_block_info =
  cb_id :: jsstring
  cb_content :: jsstring
  cb_language :: "jsstring option"
  cb_parentSelector :: jsstring
  cb_index :: int

datatype role = User | Assistant

record chat_message =
  cm_role :: role
  cm_content :: jsstring
  cm_timestamp :: int

text \<open>\<open>StructuredContentElement\<close>: \<open>{ type, content, tag?, attributes? }\<close>.\<close>

record segment =
  seg_type :: jsstring
  seg_content :: jsstring
  seg_tag :: "jsstring option"
  seg_attributes :: "(jsstring \<rightharpoonup> jsstring) option"

record page_context =
  url :: jsstring
  title :: jsstring
  content :: jsstring
  htmlContent :: "jsstring option"
  structuredContent :: "segment list option"
  translatedContent :: "jsstring option"
  translatedHtmlContent :: "jsstring option"
  translatedStructuredContent :: "segment list option"
  codeBlocks :: "code_block_info list"
  pageTranslations :: "jsstring \<rightharpoonup> translation_result"
  chatHistory :: "chat_message list"
  lastUpdated :: int


section \<open>Content script: translating the structured content\<close>

text \<open>
  The content script talks to the outside through three operations, taken as parameters
  over an arbitrary world state \<open>'w\<close>: \<open>browser.runtime.sendMessage\<close> of a
  \<open>TRANSLATE_TEXT\<close> request (which may reject, or answer with a \<open>success\<close> flag and a
  \<open>translatedText\<close>), \<open>Date.now()\<close>, and \<open>sleep\<close>.
\<close>

datatype response = Rejected | Response bool "jsstring option"

record 'w runtime =
  sendMessage :: "jsstring \<Rightarrow> 'w \<Rightarrow> response \<times> 'w"
  dateNow :: "'w \<Rightarrow> int"
  sleep :: "nat \<Rightarrow> 'w \<Rightarrow> 'w"

record content_script =
  isTranslating :: bool
  pageContext :: "page_context option"

text \<open>
  \<open>pageContext.translations\<close> is a plain object read with \<open>translations[text]\<close>, so
  a text that names a member of \<open>Object.prototype\<close> finds that member when the table
  has no entry of its own under it.
\<close>

definition objectPrototypeMembers :: "jsstring list" where
  "objectPrototypeMembers =
     [utf16 ''constructor'', utf16 ''__defineGetter__'', utf16 ''__defineSetter__'',
      utf16 ''hasOwnProperty'', utf16 ''__lookupGetter__'', utf16 ''__lookupSetter__'',
      utf16 ''isPrototypeOf'', utf16 ''propertyIsEnumerable'', utf16 ''toString'',
      utf16 ''valueOf'', utf16 ''__proto__'', utf16 ''toLocaleString'']"

text \<open>
  \<open>ContentScript.translateText\<close>: \<open>null\<close> for blank text; the page context's own
  translation table first; otherwise one \<open>TRANSLATE_TEXT\<close> request, whose answer is
  recorded in the table. Every failure is caught and becomes \<open>null\<close>. Where the
  table lookup finds an inherited member, which is truthy, the function returns that
  member's \<open>translatedText\<close>, which is \<open>undefined\<close>, and sends nothing; the result
  \<open>None\<close> stands for \<open>null\<close> and \<open>undefined\<close>, which the callers do not tell apart.
\<close>

definition translateText ::
  "'w runtime \<Rightarrow> jsstring \<Rightarrow> content_script \<times> 'w \<Rightarrow> jsstring option \<times> content_script \<times> 'w" where
  "translateText rt text st =
     (let (cs, w) = st in
      if isBlank text then (None, cs, w)
      else
        (case (case pageContext cs of
                 None \<Rightarrow> None
               | Some ctx \<Rightarrow>
                   (case pageTranslations ctx text of
                      Some r \<Rightarrow> Some (Some (translatedText r))
                    | None \<Rightarrow> if text \<in> set objectPrototypeMembers then Some None else None)) of
           Some found \<Rightarrow> (found, cs, w)
         | None \<Rightarrow>
             (case sendMessage rt text w of
                (Rejected, w') \<Rightarrow> (None, cs, w')
              | (Response success tt, w') \<Rightarrow>
                  (case tt of
                     None \<Rightarrow> (None, cs, w')
                   | Some t \<Rightarrow>
                       if success \<and> t \<noteq> [] then
                         (Some t,
                          (case pageContext cs of
                             None \<Rightarrow> cs
                           | Some ctx \<Rightarrow>
                               cs\<lparr>pageContext := Some (ctx\<lparr>pageTranslations := (pageTranslations ctx)(text \<mapsto>
                                 \<lparr>originalText = text, translatedText = t,
                                  timestamp = dateNow rt w'\<rparr>)\<rparr>)\<rparr>),
                          w')
                       else (None, cs, w')))))"

text \<open>
  The loop body of \<open>translateStructuredContent\<close>, which pushes exactly one item on
  every path: a \<open>code\<close> item is pushed as it is; an image with alternative text and
  any other item with content are sent to \<open>translateText\<close> (followed by the one-second
  pause); an item without content is pushed as it is.
\<close>

definition translateItem ::
  "'w runtime \<Rightarrow> segment \<Rightarrow> content_script \<times> 'w \<Rightarrow> segment \<times> content_script \<times> 'w" where
  "translateItem rt item st =
     (if seg_type item = utf16 ''code'' then (item, st)
      else if seg_type item = utf16 ''image'' \<and> seg_content item \<noteq> [] then
        (case translateText rt (seg_content item) st of
           (translatedAlt, cs, w) \<Rightarrow>
             (item\<lparr>seg_content :=
                 (case translatedAlt of
                    None \<Rightarrow> seg_content item
                  | Some t \<Rightarrow> if t \<noteq> [] then t else seg_content item)\<rparr>,
              cs, sleep rt 1000 w))
      else if seg_content item \<noteq> [] then
        (case translateText rt (seg_content item) st of
           (translated, cs, w) \<Rightarrow>
             ((case translated of
                 None \<Rightarrow> item
               | Some t \<Rightarrow> if t \<noteq> [] then item\<lparr>seg_content := t\<rparr> else item),
              cs, sleep rt 1000 w))
      else (item, st))"

fun translateItems ::
  "'w runtime \<Rightarrow> segment list \<Rightarrow> segment list \<Rightarrow> content_script \<times> 'w \<Rightarrow>
   segment list \<times> content_script \<times> 'w" where
  "translateItems rt [] translatedItems st = (translatedItems, st)"
| "translateItems rt (item # items) translatedItems st =
     (case translateItem rt item st of
        (pushed, st') \<Rightarrow> translateItems rt items (translatedItems @ [pushed]) st')"

definition translateStructuredContent ::
  "'w runtime \<Rightarrow> content_script \<times> 'w \<Rightarrow> content_script \<times> 'w" where
  "translateStructuredContent rt st =
     (let (cs, w) = st in
      case pageContext cs of
        None \<Rightarrow> (cs, w)
      | Some ctx \<Rightarrow>
          (case structuredContent ctx of
             None \<Rightarrow> (cs, w)
           | Some items \<Rightarrow>
               (case translateItems rt items [] (cs, w) of
                  (translatedItems, cs', w') \<Rightarrow>
                    (cs'\<lparr>pageContext :=
                        map_option (\<lambda>c. c\<lparr>translatedStructuredContent := Some translatedItems\<rparr>)
                          (pageContext cs')\<rparr>,
                     w'))))"

subsection \<open>An example page\<close>

text \<open>
  An instance: a backend that answers every request with \<open>"X"\<close>, and a page whose
  structured content is a paragraph followed by a code block.
\<close>

definition example_runtime :: "unit runtime" where
  "example_runtime =
     \<lparr>sendMessage = (\<lambda>text w. (Response True (Some (utf16 ''X'')), w)),
      dateNow = (\<lambda>w. 1000), sleep = (\<lambda>ms w. w)\<rparr>"

definition example_items :: "segment list" where
  "example_items =
     [\<lparr>seg_type = utf16 ''paragraph'', seg_content = utf16 ''Hi'', seg_tag = Some (utf16 ''p''),
       seg_attributes = Some Map.empty\<rparr>,
      \<lparr>seg_type = utf16 ''code'', seg_content = utf16 ''x = 1'', seg_tag = Some (utf16 ''pre''),
       seg_attributes = Some Map.empty\<rparr>]"

definition example_context :: page_context where
  "example_context =
     \<lparr>url = utf16 ''u'', title = [], content = utf16 ''Hi x = 1'', htmlContent = None,
      structuredContent = Some example_items, translatedContent = None,
      translatedHtmlContent = None, translatedStructuredContent = None, codeBlocks = [],
      pageTranslations = Map.empty, chatHistory = [], lastUpdated = 0\<rparr>"

definition example_script :: content_script where
  "example_script = \<lparr>isTranslating = False, pageContext = Some example_context\<rparr>"


section \<open>Storage (utils/storage.ts)\<close>

datatype tone = Casual | Formal | Technical

record translation_settings =
  apiKey :: jsstring
  tone :: tone
  cacheExpiration :: int

definition DEFAULT_SETTINGS :: translation_settings where
  "DEFAULT_SETTINGS = \<lparr>apiKey = [], tone = Casual, cacheExpiration = 5\<rparr>"

text \<open>
  \<open>browser.storage.local\<close> holds three kinds of values: page contexts under
  \<open>page_<url>\<close>, the recent-pages list under \<open>recentPages\<close>, and cache entries
  \<open>{originalText, translatedText, timestamp}\<close> under \<open>cache_<hash>\<close>.
  \<open>browser.storage.sync\<close> holds only the \<open>settings\<close> key.
\<close>

datatype stored = PageContextV page_context | RecentPagesV "jsstring list" | CacheV translation_result

record storage =
  storage_local :: "jsstring \<rightharpoonup> stored"
  storage_sync :: "translation_settings option"

definition getSettings :: "storage \<Rightarrow> translation_settings" where
  "getSettings st = (case storage_sync st of None \<Rightarrow> DEFAULT_SETTINGS | Some s \<Rightarrow> s)"

definition saveSettings :: "translation_settings \<Rightarrow> storage \<Rightarrow> storage" where
  "saveSettings s st = st\<lparr>storage_sync := Some s\<rparr>"

definition getRecentPages :: "storage \<Rightarrow> jsstring list" where
  "getRecentPages st =
     (case storage_local st (utf16 ''recentPages'') of Some (RecentPagesV pages) \<Rightarrow> pages | _ \<Rightarrow> [])"

definition pageKey :: "jsstring \<Rightarrow> jsstring" where
  "pageKey u = utf16 ''page_'' @ u"

text \<open>
  \<open>savePageContext\<close>: store the context as it is given, then put its URL at the front
  of the recent-pages list, without its earlier occurrences, cut to ten entries.
\<close>

definition savePageContext :: "page_context \<Rightarrow> storage \<Rightarrow> storage" where
  "savePageContext context st =
     (let key = pageKey (url context);
          st1 = st\<lparr>storage_local := (storage_local st)(key \<mapsto> PageContextV context)\<rparr>;
          recentPages = getRecentPages st1;
          updatedPages = take 10 (url context # filter (\<lambda>u. u \<noteq> url context) recentPages)
      in st1\<lparr>storage_local := (storage_local st1)(utf16 ''recentPages'' \<mapsto> RecentPagesV updatedPages)\<rparr>)"

definition getPageContext :: "jsstring \<Rightarrow> storage \<Rightarrow> page_context option" where
  "getPageContext u st =
     (case storage_local st (pageKey u) of Some (PageContextV c) \<Rightarrow> Some c | _ \<Rightarrow> None)"

text \<open>
  The content script's own \<open>savePageContext\<close>: nothing without a page context; otherwise
  it sets \<open>lastUpdated\<close> to \<open>Date.now()\<close> and sends the context in a
  \<open>SAVE_PAGE_CONTEXT\<close> message, which the background script's \<open>handleSavePageContext\<close>
  passes to the storage function above.
\<close>

definition handleSavePageContext :: "page_context \<Rightarrow> storage \<Rightarrow> storage" where
  "handleSavePageContext context st = savePageContext context st"

definition contentScript_savePageContext ::
  "int \<Rightarrow> content_script \<times> storage \<Rightarrow> content_script \<times> storage" where
  "contentScript_savePageContext now s =
     (let (cs, st) = s in
      case pageContext cs of
        None \<Rightarrow> (cs, st)
      | Some ctx \<Rightarrow>
          (let ctx' = ctx\<lparr>lastUpdated := now\<rparr>
           in (cs\<lparr>pageContext := Some ctx'\<rparr>, handleSavePageContext ctx' st)))"

text \<open>
  The background script's \<open>handleChatQuery\<close>: it loads the stored context, asks the
  backend (a parameter; \<open>None\<close> when the call throws), appends the question and the
  answer to the chat history with the clock readings \<open>now1\<close> and \<open>now2\<close>, and
  saves the context.
\<close>

datatype chat_error = ContextNotFound | ChatFailed

definition handleChatQuery ::
  "(jsstring \<Rightarrow> jsstring \<Rightarrow> jsstring option) \<Rightarrow> int \<Rightarrow> int \<Rightarrow> jsstring \<Rightarrow> jsstring \<Rightarrow> storage \<Rightarrow>
   (chat_error + jsstring) \<times> storage" where
  "handleChatQuery generateChatResponse now1 now2 query u st =
     (case getPageContext u st of
        None \<Rightarrow> (Inl ContextNotFound, st)
      | Some context \<Rightarrow>
          (case generateChatResponse query (content context) of
             None \<Rightarrow> (Inl ChatFailed, st)
           | Some response \<Rightarrow>
               (Inr response,
                savePageContext
                  (context\<lparr>chatHistory := chatHistory context @
                     [\<lparr>cm_role = User, cm_content = query, cm_timestamp = now1\<rparr>,
                      \<lparr>cm_role = Assistant, cm_content = response, cm_timestamp = now2\<rparr>]\<rparr>)
                  st)))"

subsection \<open>The translation cache\<close>

text \<open>
  \<open>hashString\<close>: \<open>hash = ((hash << 5) - hash) + char; hash = hash & hash\<close> over the
  code units, that is arithmetic modulo \<open>2^32\<close> read as a signed number, printed by
  \<open>toString(36)\<close>.
\<close>

definition digit36 :: "nat \<Rightarrow> nat" where
  "digit36 d = (if d < 10 then 48 + d else 87 + d)"

function toBase36 :: "nat \<Rightarrow> jsstring" where
  "toBase36 n = (if n < 36 then [digit36 n] else toBase36 (n div 36) @ [digit36 (n mod 36)])"
  by pat_completeness auto
termination
  by (relation "measure id") auto

definition toString36 :: "int \<Rightarrow> jsstring" where
  "toString36 i = (if i < 0 then 45 # toBase36 (nat (- i)) else toBase36 (nat i))"

definition hashStep :: "32 word \<Rightarrow> nat \<Rightarrow> 32 word" where
  "hashStep hash char = (push_bit 5 hash - hash) + of_nat char"

definition hashString :: "jsstring \<Rightarrow> jsstring" where
  "hashString str = toString36 (sint (foldl hashStep 0 str))"

definition cacheKey :: "jsstring \<Rightarrow> jsstring" where
  "cacheKey original = utf16 ''cache_'' @ hashString original"

definition startsWith :: "jsstring \<Rightarrow> jsstring \<Rightarrow> bool" where
  "startsWith s prefix \<longleftrightarrow> take (length prefix) s = prefix"

text \<open>
  \<open>manageCache\<close>: of all stored items, those whose key starts with \<open>cache_\<close>, whose
  value has a (non-zero) \<open>timestamp\<close> and for which \<open>now - timestamp\<close> exceeds one
  week are collected in \<open>keysToRemove\<close> and removed.
\<close>

definition expirationTime :: int where
  "expirationTime = 7 * 24 * 60 * 60 * 1000"

definition timestampOf :: "stored \<Rightarrow> int option" where
  "timestampOf v = (case v of CacheV e \<Rightarrow> Some (timestamp e) | _ \<Rightarrow> None)"

definition toRemove :: "int \<Rightarrow> jsstring \<Rightarrow> stored \<Rightarrow> bool" where
  "toRemove now key v \<longleftrightarrow>
     startsWith key (utf16 ''cache_'') \<and>
     (case timestampOf v of None \<Rightarrow> False | Some ts \<Rightarrow> ts \<noteq> 0 \<and> now - ts > expirationTime)"

definition manageCache :: "int \<Rightarrow> storage \<Rightarrow> storage" where
  "manageCache now st =
     (let allItems = storage_local st;
          keysToRemove = {key. case allItems key of None \<Rightarrow> False | Some v \<Rightarrow> toRemove now key v}
      in st\<lparr>storage_local := allItems |` (- keysToRemove)\<rparr>)"

text \<open>
  \<open>saveTranslationCache\<close> reads the clock twice: for the entry's timestamp
  (\<open>now1\<close>) and, after the write, inside \<open>manageCache\<close> (\<open>now2\<close>).
\<close>

definition saveTranslationCache :: "jsstring \<Rightarrow> jsstring \<Rightarrow> int \<Rightarrow> int \<Rightarrow> storage \<Rightarrow> storage" where
  "saveTranslationCache original translated now1 now2 st =
     manageCache now2
       (st\<lparr>storage_local := (storage_local st)(cacheKey original \<mapsto>
          CacheV \<lparr>originalText = original, translatedText = translated, timestamp = now1\<rparr>)\<rparr>)"

definition getTranslationCache :: "jsstring \<Rightarrow> storage \<Rightarrow> translation_result option" where
  "getTranslationCache original st =
     (case storage_local st (cacheKey original) of Some (CacheV e) \<Rightarrow> Some e | _ \<Rightarrow> None)"

text \<open>\<open>isCacheValid\<close> (utils/helpers.ts), with the clock reading as a parameter.\<close>

definition isCacheValid :: "translation_result option \<Rightarrow> int \<Rightarrow> int \<Rightarrow> bool" where
  "isCacheValid result expirationMinutes now =
     (case result of
        None \<Rightarrow> False
      | Some r \<Rightarrow> now - timestamp r < expirationMinutes * 60 * 1000)"

subsection \<open>Example stores\<close>

definition stale_context :: page_context where
  "stale_context = example_context\<lparr>lastUpdated := 1000\<rparr>"

definition stale_store :: storage where
  "stale_store =
     \<lparr>storage_local = [pageKey (utf16 ''u'') \<mapsto> PageContextV stale_context], storage_sync = None\<rparr>"

definition ten_pages :: "jsstring list" where
  "ten_pages = map (\<lambda>n. [100, n]) [1, 2, 3, 4, 5, 6, 7, 8, 9, 10]"

definition ten_store :: storage where
  "ten_store =
     \<lparr>storage_local = [utf16 ''recentPages'' \<mapsto> RecentPagesV ten_pages], storage_sync = None\<rparr>"

definition d11_context :: page_context where
  "d11_context = example_context\<lparr>url := [100, 11]\<rparr>"

definition empty_store :: storage where
  "empty_store = \<lparr>storage_local = Map.empty, storage_sync = None\<rparr>"

definition epoch_entry :: translation_result where
  "epoch_entry = \<lparr>originalText = utf16 ''a'', translatedText = utf16 ''X'', timestamp = 0\<rparr>"

definition epoch_store :: storage where
  "epoch_store = \<lparr>storage_local = [utf16 ''cache_2p'' \<mapsto> CacheV epoch_entry], storage_sync = None\<rparr>"

definition old_entry :: translation_result where
  "old_entry = \<lparr>originalText = utf16 ''a'', translatedText = utf16 ''X'', timestamp = 1000\<rparr>"

definition stale_entry :: translation_result where
  "stale_entry = \<lparr>originalText = utf16 ''b'', translatedText = utf16 ''Y'', timestamp = 600000000\<rparr>"

definition mixed_store :: storage where
  "mixed_store =
     \<lparr>storage_local =
        [utf16 ''cache_2p'' \<mapsto> CacheV old_entry, utf16 ''cache_2q'' \<mapsto> CacheV stale_entry,
         pageKey (utf16 ''u'') \<mapsto> PageContextV example_context],
      storage_sync = None\<rparr>"


section \<open>The chunker (utils/helpers.ts)\<close>

text \<open>
  \<open>String.prototype.split\<close> with a regular expression that cannot match the empty
  string: scan from the left; where the expression matches, close the current piece and
  continue after the match; otherwise move the character into the current piece. A
  matcher is given the character before the position (for a look-behind) and the rest of
  the string, and returns how many characters after the first one the match consumes.
\<close>

fun splitWith ::
  "(nat option \<Rightarrow> jsstring \<Rightarrow> nat option) \<Rightarrow> nat option \<Rightarrow> jsstring \<Rightarrow> jsstring \<Rightarrow> jsstring list" where
  "splitWith matcher prev piece [] = [piece]"
| "splitWith matcher prev piece (c # rest) =
     (case matcher prev (c # rest) of
        Some n \<Rightarrow> piece # splitWith matcher (Some (last (c # take n rest))) [] (drop n rest)
      | None \<Rightarrow> splitWith matcher (Some c) (piece @ [c]) rest)"

text \<open>
  \<open>/\n\s*\n/\<close>: a line feed, then white space, then a line feed. \<open>\s*\<close> is greedy
  and line feeds are white space, so the match runs from a line feed to the last line
  feed of the white-space run that follows it; without a line feed in that run there is
  no match at this position.
\<close>

definition paragraphSeparator :: "nat option \<Rightarrow> jsstring \<Rightarrow> nat option" where
  "paragraphSeparator prev s =
     (case s of
        [] \<Rightarrow> None
      | c # rest \<Rightarrow>
          (let run = takeWhile isWhiteSpace rest in
           if c = 10 \<and> 10 \<in> set run
           then Some (length run - length (takeWhile (\<lambda>x. x \<noteq> 10) (rev run)))
           else None))"

text \<open>
  \<open>/(?<=[.!?])\s+/\<close>: after a full stop, exclamation mark or question mark, the
  whole run of white space (at least one character).
\<close>

definition sentenceSeparator :: "nat option \<Rightarrow> jsstring \<Rightarrow> nat option" where
  "sentenceSeparator prev s =
     (if prev \<in> {Some 46, Some 33, Some 63} \<and> takeWhile isWhiteSpace s \<noteq> []
      then Some (length (takeWhile isWhiteSpace s) - 1)
      else None)"

definition splitParagraphs :: "jsstring \<Rightarrow> jsstring list" where
  "splitParagraphs text = splitWith paragraphSeparator None [] text"

definition splitSentences :: "jsstring \<Rightarrow> jsstring list" where
  "splitSentences paragraph = splitWith sentenceSeparator None [] paragraph"

text \<open>
  The innermost loop cuts an over-long sentence into slices of \<open>maxChunkSize\<close>
  characters and pushes them onto \<open>chunks\<close>. With \<open>maxChunkSize = 0\<close> the remaining
  sentence never shrinks and the loop does not end; not returning is the value \<open>None\<close>.
\<close>

partial_function (option) hardCut :: "nat \<Rightarrow> jsstring \<Rightarrow> jsstring list \<Rightarrow> jsstring list option" where
  [code]: "hardCut maxChunkSize remainingSentence chunks =
     (if length remainingSentence > 0
      then hardCut maxChunkSize (drop maxChunkSize remainingSentence)
             (chunks @ [take maxChunkSize remainingSentence])
      else Some chunks)"

text \<open>The loops over sentences and paragraphs share the state \<open>(chunks, currentChunk)\<close>.\<close>

fun foldOption :: "('s \<Rightarrow> 'a \<Rightarrow> 's option) \<Rightarrow> 's \<Rightarrow> 'a list \<Rightarrow> 's option" where
  "foldOption f s [] = Some s"
| "foldOption f s (x # xs) = (case f s x of None \<Rightarrow> None | Some s' \<Rightarrow> foldOption f s' xs)"

definition sentenceStep ::
  "nat \<Rightarrow> jsstring list \<times> jsstring \<Rightarrow> jsstring \<Rightarrow> (jsstring list \<times> jsstring) option" where
  "sentenceStep maxChunkSize st sentence =
     (let (chunks, currentChunk) = st in
      if length sentence > maxChunkSize then
        (case hardCut maxChunkSize sentence chunks of
           None \<Rightarrow> None
         | Some chunks' \<Rightarrow> Some (chunks', currentChunk))
      else if length currentChunk + length sentence > maxChunkSize then
        Some (chunks @ [currentChunk], sentence)
      else
        Some (chunks, currentChunk @ (if currentChunk \<noteq> [] then utf16 '' '' else []) @ sentence))"

definition paragraphStep ::
  "nat \<Rightarrow> jsstring list \<times> jsstring \<Rightarrow> jsstring \<Rightarrow> (jsstring list \<times> jsstring) option" where
  "paragraphStep maxChunkSize st paragraph =
     (let (chunks, currentChunk) = st in
      if length paragraph > maxChunkSize then
        foldOption (sentenceStep maxChunkSize) st (splitSentences paragraph)
      else if length currentChunk + length paragraph > maxChunkSize then
        Some (chunks @ [currentChunk], paragraph)
      else
        Some (chunks, currentChunk @ (if currentChunk \<noteq> [] then [10, 10] else []) @ paragraph))"

definition splitTextIntoChunks :: "jsstring \<Rightarrow> nat \<Rightarrow> jsstring list option" where
  "splitTextIntoChunks text maxChunkSize =
     (if length text \<le> maxChunkSize then Some [text]
      else
        (case foldOption (paragraphStep maxChunkSize) ([], []) (splitParagraphs text) of
           None \<Rightarrow> None
         | Some (chunks, currentChunk) \<Rightarrow>
             Some (if currentChunk \<noteq> [] then chunks @ [currentChunk] else chunks)))"

subsection \<open>The pieces of a text\<close>

text \<open>
  The pieces that the loops handle, in order: a text that fits is one piece; otherwise
  every paragraph that fits is a piece, and an over-long paragraph contributes its
  sentences, an over-long sentence being replaced by its hard-cut slices.
\<close>

function slices :: "nat \<Rightarrow> jsstring \<Rightarrow> jsstring list" where
  "slices maxChunkSize s =
     (if s = [] \<or> maxChunkSize = 0 then []
      else take maxChunkSize s # slices maxChunkSize (drop maxChunkSize s))"
  by pat_completeness auto
termination
  by (relation "measure (\<lambda>(m, s). length s)") auto

declare slices.simps [simp del]



text \<open>\<open>glue seps ps\<close> writes the pieces one after the other, each after its separator.\<close>

definition glue :: "jsstring list \<Rightarrow> jsstring list \<Rightarrow> jsstring" where
  "glue seps ps = concat (map2 (@) seps ps)"








subsection \<open>Example texts\<close>

definition two_paragraphs :: jsstring where
  "two_paragraphs = replicate 2000 97 @ [10, 10] @ replicate 2000 98"




section \<open>The content tree and the structured extractor\<close>

text \<open>
  The DOM, as far as the extractor reads it: an element has a tag name (in lower case),
  attributes in document order and child nodes; the other nodes are text. \<open>subtree\<close>
  lists the elements of a tree in tree order (depth first, an element before its
  children); \<open>querySelectorAll\<close> with a list of type selectors returns, in tree order,
  the descendants of an element whose tag is one of them; \<open>textContent\<close> concatenates
  the text of a subtree.
\<close>

datatype node = Element jsstring "(jsstring \<times> jsstring) list" "node list" | TextNode jsstring

fun subtree :: "node \<Rightarrow> node list" where
  "subtree (TextNode t) = []"
| "subtree (Element tag attrs children) = Element tag attrs children # concat (map subtree children)"

fun descendants :: "node \<Rightarrow> node list" where
  "descendants (TextNode t) = []"
| "descendants (Element tag attrs children) = concat (map subtree children)"

fun textContent :: "node \<Rightarrow> jsstring" where
  "textContent (TextNode t) = t"
| "textContent (Element tag attrs children) = concat (map textContent children)"

fun tagName :: "node \<Rightarrow> jsstring" where
  "tagName (TextNode t) = []"
| "tagName (Element tag attrs children) = tag"

fun attributesOf :: "node \<Rightarrow> (jsstring \<times> jsstring) list" where
  "attributesOf (TextNode t) = []"
| "attributesOf (Element tag attrs children) = attrs"

definition getAttribute :: "jsstring \<Rightarrow> node \<Rightarrow> jsstring option" where
  "getAttribute name el = map_of (attributesOf el) name"

definition querySelectorAll :: "jsstring list \<Rightarrow> node \<Rightarrow> node list" where
  "querySelectorAll tags el = filter (\<lambda>n. tagName n \<in> set tags) (descendants el)"

definition includesStr :: "jsstring \<Rightarrow> jsstring \<Rightarrow> bool" where
  "includesStr s sub \<longleftrightarrow> list_ex (\<lambda>i. take (length sub) (drop i s) = sub) [0..<Suc (length s)]"

fun join :: "jsstring \<Rightarrow> jsstring list \<Rightarrow> jsstring" where
  "join sep [] = []"
| "join sep [x] = x"
| "join sep (x # y # ys) = x @ sep @ join sep (y # ys)"

text \<open>
  \<open>attributes[name] = value\<close> on a plain object, for a string value: under the name
  \<open>__proto__\<close> the assignment goes to the setter of \<open>Object.prototype\<close>, which
  ignores a string, and nothing is stored.
\<close>

definition assign :: "(jsstring \<rightharpoonup> jsstring) \<Rightarrow> jsstring \<Rightarrow> jsstring \<Rightarrow> (jsstring \<rightharpoonup> jsstring)" where
  "assign attributes name v = (if name = utf16 ''__proto__'' then attributes else attributes(name \<mapsto> v))"

text \<open>
  \<open>getElementAttributes\<close>: the attributes whose name does not start with \<open>on\<close> and
  whose value does not contain \<open>javascript:\<close>.
\<close>

definition getElementAttributes :: "node \<Rightarrow> (jsstring \<rightharpoonup> jsstring)" where
  "getElementAttributes element =
     foldl (\<lambda>attributes (name, v).
              if \<not> startsWith name (utf16 ''on'') \<and> \<not> includesStr v (utf16 ''javascript:'')
              then assign attributes name v else attributes)
       Map.empty (attributesOf element)"

text \<open>
  \<open>extractStructuredContent\<close> fills one array in five passes over the tree: all
  headings, then all paragraphs, then all lists, then all code containers, then all
  images. \<open>structuredSegments\<close> is that array; the function stores it in the page
  context, if there is one.
\<close>

definition headingTags :: "jsstring list" where
  "headingTags = [utf16 ''h1'', utf16 ''h2'', utf16 ''h3'', utf16 ''h4'', utf16 ''h5'', utf16 ''h6'']"

definition headingSegment :: "node \<Rightarrow> segment" where
  "headingSegment heading =
     \<lparr>seg_type = utf16 ''heading'', seg_content = textContent heading,
      seg_tag = Some (tagName heading), seg_attributes = Some (getElementAttributes heading)\<rparr>"

definition paragraphSegment :: "node \<Rightarrow> segment" where
  "paragraphSegment paragraph =
     \<lparr>seg_type = utf16 ''paragraph'', seg_content = textContent paragraph,
      seg_tag = Some (utf16 ''p''), seg_attributes = Some (getElementAttributes paragraph)\<rparr>"

definition listSegment :: "node \<Rightarrow> segment" where
  "listSegment list =
     (let items = map textContent (querySelectorAll [utf16 ''li''] list) in
      \<lparr>seg_type = utf16 ''list'', seg_content = join [10] items,
       seg_tag = Some (tagName list), seg_attributes = Some (getElementAttributes list)\<rparr>)"

definition codeSegment :: "node \<Rightarrow> segment" where
  "codeSegment codeBlock =
     \<lparr>seg_type = utf16 ''code'', seg_content = textContent codeBlock,
      seg_tag = Some (tagName codeBlock), seg_attributes = Some (getElementAttributes codeBlock)\<rparr>"

definition imageSegment :: "node \<Rightarrow> segment" where
  "imageSegment img =
     \<lparr>seg_type = utf16 ''image'',
      seg_content = (case getAttribute (utf16 ''alt'') img of None \<Rightarrow> [] | Some alt \<Rightarrow> alt),
      seg_tag = Some (utf16 ''img''), seg_attributes = Some (getElementAttributes img)\<rparr>"

definition structuredSegments :: "node \<Rightarrow> segment list" where
  "structuredSegments element =
     map headingSegment (querySelectorAll headingTags element) @
     map paragraphSegment (querySelectorAll [utf16 ''p''] element) @
     map listSegment (querySelectorAll [utf16 ''ul'', utf16 ''ol''] element) @
     map codeSegment (querySelectorAll [utf16 ''pre'', utf16 ''code''] element) @
     map imageSegment (querySelectorAll [utf16 ''img''] element)"

definition extractStructuredContent :: "node \<Rightarrow> content_script \<Rightarrow> content_script" where
  "extractStructuredContent element cs =
     (case pageContext cs of
        None \<Rightarrow> cs
      | Some ctx \<Rightarrow>
          cs\<lparr>pageContext := Some (ctx\<lparr>structuredContent := Some (structuredSegments element)\<rparr>)\<rparr>)"

text \<open>
  What the specification asks for, to compare with: one segment for each recognised
  unit, in document order, that is in one pass over the tree in depth-first pre-order.
\<close>

definition unitSegment :: "node \<Rightarrow> segment list" where
  "unitSegment n =
     (if tagName n \<in> set headingTags then [headingSegment n]
      else if tagName n = utf16 ''p'' then [paragraphSegment n]
      else if tagName n \<in> set [utf16 ''ul'', utf16 ''ol''] then [listSegment n]
      else if tagName n \<in> set [utf16 ''pre'', utf16 ''code''] then [codeSegment n]
      else if tagName n = utf16 ''img'' then [imageSegment n]
      else [])"

definition documentOrderSegments :: "node \<Rightarrow> segment list" where
  "documentOrderSegments root = concat (map unitSegment (descendants root))"

definition segmentKinds :: "jsstring list" where
  "segmentKinds =
     [utf16 ''heading'', utf16 ''paragraph'', utf16 ''list'', utf16 ''code'', utf16 ''image'']"

subsection \<open>An example tree\<close>

definition example_tree :: node where
  "example_tree =
     Element (utf16 ''div'') []
       [Element (utf16 ''p'') [] [TextNode (utf16 ''A'')],
        Element (utf16 ''h1'') [] [TextNode (utf16 ''B'')]]"



section \<open>Regular expressions\<close>

text \<open>
  The fragment of JavaScript's regular expressions that the classifier uses, as a
  backtracking matcher. A position in the subject is the character before it (if any) and
  the rest of the string; \<open>rmatch r pos\<close> lists the positions at which a match of
  \<open>r\<close> that starts at \<open>pos\<close> can end, in the order in which backtracking tries
  them (the left alternative first, the longer repetition first). \<open>ChrI\<close> is a
  character under the \<open>i\<close> flag, \<open>Bol\<close> is \<open>^\<close> without the \<open>m\<close> flag,
  \<open>BolM\<close> is \<open>^\<close> with it, \<open>WordB\<close> is \<open>\b\<close>. An iteration of \<open>*\<close> that
  consumes nothing is rejected, as in JavaScript.
\<close>

datatype rx =
    Eps
  | Chr nat
  | ChrI nat
  | Cls "nat \<Rightarrow> bool"
  | Seq rx rx
  | Alt rx rx
  | Star rx
  | Bol
  | BolM
  | WordB

type_synonym pos = "nat option \<times> jsstring"

definition isWordChar :: "nat \<Rightarrow> bool" where
  "isWordChar c \<longleftrightarrow> (48 \<le> c \<and> c \<le> 57) \<or> (65 \<le> c \<and> c \<le> 90) \<or> c = 95 \<or> (97 \<le> c \<and> c \<le> 122)"

definition isLineTerminator :: "nat \<Rightarrow> bool" where
  "isLineTerminator c \<longleftrightarrow> c = 10 \<or> c = 13 \<or> c = 8232 \<or> c = 8233"

definition asciiUpper :: "nat \<Rightarrow> nat" where
  "asciiUpper c = (if 97 \<le> c \<and> c \<le> 122 then c - 32 else c)"

definition step :: "(nat \<Rightarrow> bool) \<Rightarrow> pos \<Rightarrow> pos list" where
  "step P p = (case snd p of [] \<Rightarrow> [] | c # rest \<Rightarrow> if P c then [(Some c, rest)] else [])"

definition atWordBoundary :: "pos \<Rightarrow> bool" where
  "atWordBoundary p \<longleftrightarrow>
     (case fst p of None \<Rightarrow> False | Some c \<Rightarrow> isWordChar c) \<noteq>
     (case snd p of [] \<Rightarrow> False | c # rest \<Rightarrow> isWordChar c)"

fun starIter :: "(pos \<Rightarrow> pos list) \<Rightarrow> nat \<Rightarrow> pos \<Rightarrow> pos list" where
  "starIter f 0 p = [p]"
| "starIter f (Suc n) p =
     concat (map (starIter f n) (filter (\<lambda>q. length (snd q) < length (snd p)) (f p))) @ [p]"

fun rmatch :: "rx \<Rightarrow> pos \<Rightarrow> pos list" where
  "rmatch Eps p = [p]"
| "rmatch (Chr c) p = step (\<lambda>x. x = c) p"
| "rmatch (ChrI c) p = step (\<lambda>x. asciiUpper x = asciiUpper c) p"
| "rmatch (Cls P) p = step P p"
| "rmatch (Seq a b) p = concat (map (rmatch b) (rmatch a p))"
| "rmatch (Alt a b) p = rmatch a p @ rmatch b p"
| "rmatch (Star a) p = starIter (rmatch a) (length (snd p)) p"
| "rmatch Bol p = (if fst p = None then [p] else [])"
| "rmatch BolM p =
     (case fst p of None \<Rightarrow> [p] | Some c \<Rightarrow> if isLineTerminator c then [p] else [])"
| "rmatch WordB p = (if atWordBoundary p then [p] else [])"

text \<open>
  \<open>RegExp.prototype.exec\<close> finds the leftmost position with a match and takes the first
  match there; \<open>exec\<close> returns the length of the matched text. \<open>test\<close> asks whether
  there is a match.
\<close>

fun execFrom :: "rx \<Rightarrow> nat option \<Rightarrow> jsstring \<Rightarrow> nat option" where
  "execFrom r prev [] =
     (case rmatch r (prev, []) of [] \<Rightarrow> None | q # qs \<Rightarrow> Some 0)"
| "execFrom r prev (c # cs) =
     (case rmatch r (prev, c # cs) of
        [] \<Rightarrow> execFrom r (Some c) cs
      | q # qs \<Rightarrow> Some (length (c # cs) - length (snd q)))"

definition exec :: "rx \<Rightarrow> jsstring \<Rightarrow> nat option" where
  "exec r s = execFrom r None s"

definition test :: "rx \<Rightarrow> jsstring \<Rightarrow> bool" where
  "test r s \<longleftrightarrow> exec r s \<noteq> None"

subsection \<open>Writing patterns\<close>

definition str :: "string \<Rightarrow> rx" where
  "str s = foldr (\<lambda>c r. Seq (Chr c) r) (utf16 s) Eps"

definition strI :: "string \<Rightarrow> rx" where
  "strI s = foldr (\<lambda>c r. Seq (ChrI c) r) (utf16 s) Eps"

definition seqs :: "rx list \<Rightarrow> rx" where
  "seqs rs = foldr Seq rs Eps"

definition oneOf :: "rx list \<Rightarrow> rx" where
  "oneOf rs = foldr Alt rs (Cls (\<lambda>c. False))"

definition words :: "string list \<Rightarrow> rx" where
  "words ws = oneOf (map str ws)"

definition plus :: "rx \<Rightarrow> rx" where
  "plus r = Seq r (Star r)"

definition space :: rx where
  "space = Cls isWhiteSpace"

definition nonSpace :: rx where
  "nonSpace = Cls (\<lambda>c. \<not> isWhiteSpace c)"

definition word :: rx where
  "word = Cls isWordChar"

definition anyOf :: "string \<Rightarrow> rx" where
  "anyOf s = Cls (\<lambda>c. c \<in> set (utf16 s))"

definition noneOf :: "string \<Rightarrow> rx" where
  "noneOf s = Cls (\<lambda>c. c \<notin> set (utf16 s))"



section \<open>The classifier\<close>

subsection \<open>isCodeBlock (utils/helpers.ts)\<close>

definition wordOrDot :: rx where
  "wordOrDot = Cls (\<lambda>c. isWordChar c \<or> c = 46)"

definition wordOrHyphen :: rx where
  "wordOrHyphen = Cls (\<lambda>c. isWordChar c \<or> c = 45)"

definition wordOrBackslash :: rx where
  "wordOrBackslash = Cls (\<lambda>c. isWordChar c \<or> c = 92)"

definition codePatterns :: "rx list" where
  "codePatterns =
     [seqs [BolM, words [''const'', ''let'', ''var'', ''function'', ''class'', ''import'', ''export''],
            plus space, plus word],
      seqs [BolM, words [''def'', ''class'', ''import'', ''from'', ''if __name__'']],
      seqs [BolM, words [''public'', ''private'', ''protected'', ''class'', ''interface'', ''enum'']],
      seqs [BolM, oneOf [str ''#include'', seqs [str ''int'', plus space, str ''main''],
                         seqs [str ''void'', plus space, str ''main'']]],
      seqs [BolM, oneOf [str ''<?php'', str ''namespace'',
                         seqs [str ''use'', plus space, plus wordOrBackslash, str '';'']]],
      seqs [BolM, oneOf [seqs [str ''package'', plus space, plus wordOrDot, str '';''],
                         seqs [str ''import'', plus space, plus wordOrDot, str '';'']]],
      seqs [BolM, words [''<!DOCTYPE'', ''<html'', ''<head'', ''<body'', ''<script'', ''<style'']],
      seqs [BolM, oneOf [str ''@media'', seqs [str ''body'', Star space, str ''{''],
                         seqs [str ''.'', plus wordOrHyphen, Star space, str ''{''],
                         seqs [str ''#'', plus wordOrHyphen, Star space, str ''{'']]]]"

definition specialChar :: rx where
  "specialChar = anyOf ''{}[]()<>:;=+-*/%&|^!~''"

text \<open>\<open>/^(\s+)\S/\<close>; the length of its first group is the length of the match less one.\<close>

definition indentPattern :: rx where
  "indentPattern = seqs [Bol, plus space, nonSpace]"

definition lineFeed :: "nat option \<Rightarrow> jsstring \<Rightarrow> nat option" where
  "lineFeed prev s = (case s of [] \<Rightarrow> None | c # rest \<Rightarrow> if c = 10 then Some 0 else None)"

text \<open>
  The two ratios are compared exactly: \<open>count / lines.length > 0.3\<close> as
  \<open>10 * count > 3 * lines.length\<close> and \<open>size < indents.length / 2\<close> as
  \<open>2 * size < indents.length\<close> (for the line counts a string can have, the
  floating-point comparison gives the same answer).
\<close>

definition isCodeBlock :: "jsstring \<Rightarrow> bool" where
  "isCodeBlock text =
     (let hasCodePattern = list_ex (\<lambda>pattern. test pattern text) codePatterns;
          lines = splitWith lineFeed None [] text;
          specialLines = length (filter (test specialChar) lines);
          indents = filter (\<lambda>indent. indent > 0)
                      (map (\<lambda>line. case exec indentPattern line of None \<Rightarrow> 0 | Some n \<Rightarrow> n - 1) lines);
          hasConsistentIndent = (length indents > 0 \<and> 2 * length (remdups indents) < length indents)
      in hasCodePattern \<or> (10 * specialLines > 3 * length lines \<and> hasConsistentIndent))"

subsection \<open>detectLanguage (utils/codeBlockDetector.ts)\<close>

definition languagePatterns :: "(jsstring \<times> rx list) list" where
  "languagePatterns =
     [(utf16 ''javascript'',
         [seqs [BolM, words [''const'', ''let'', ''var'', ''function'', ''class'', ''import'', ''export''],
                plus space, plus word],
          seqs [WordB, words [''document'', ''window'', ''console''], str ''.'', plus word, str ''(''],
          seqs [WordB, words [''setTimeout'', ''setInterval'', ''Promise'', ''async'', ''await''], WordB]]),
      (utf16 ''typescript'',
         [seqs [BolM, words [''interface'', ''type'', ''enum''], plus space, plus word],
          seqs [str '':'', Star space,
                words [''string'', ''number'', ''boolean'', ''any'', ''void'', ''never''], WordB],
          seqs [str ''<'', Cls (\<lambda>c. 65 \<le> c \<and> c \<le> 90), plus word, str ''>'']]),
      (utf16 ''python'',
         [seqs [BolM, words [''def'', ''class'', ''import'', ''from'', ''if __name__'']],
          seqs [WordB, words [''self'', ''None'', ''True'', ''False''], WordB],
          seqs [space, space, space, space, str ''def'', plus space, plus word, str ''('']]),
      (utf16 ''java'',
         [seqs [BolM, words [''public'', ''private'', ''protected''], plus space,
                words [''class'', ''interface'', ''enum'']],
          seqs [WordB, words [''extends'', ''implements'', ''@Override''], WordB],
          str ''System.out.println('']),
      (utf16 ''csharp'',
         [seqs [BolM, oneOf [seqs [str ''using'', plus space, plus wordOrDot, str '';''],
                             seqs [str ''namespace'', plus space, plus wordOrDot]]],
          seqs [WordB, words [''public'', ''private'', ''protected''], plus space,
                words [''class'', ''interface'', ''enum'', ''struct''], WordB],
          str ''Console.WriteLine('']),
      (utf16 ''php'',
         [seqs [BolM, words [''<?php'', ''?>'']],
          seqs [str ''$'', words [''this'', ''_GET'', ''_POST'', ''_SESSION'', ''_COOKIE'']],
          seqs [WordB, words [''echo'', ''print'', ''require'', ''include''], WordB]]),
      (utf16 ''html'',
         [seqs [Bol, strI ''<!DOCTYPE'', plus space, strI ''html>''],
          seqs [strI ''<html'', Star (noneOf ''>''), str ''>''],
          seqs [str ''<'',
                words [''head'', ''body'', ''div'', ''span'', ''p'', ''a'', ''img'', ''script'', ''link'', ''meta''],
                Star (noneOf ''>''), str ''>'']]),
      (utf16 ''css'',
         [seqs [BolM, anyOf ''.#*'', plus (noneOf ''{''), str ''{''],
          seqs [WordB,
                words [''margin'', ''padding'', ''border'', ''color'', ''background'', ''font'', ''display''],
                Star space, str '':''],
          seqs [str ''@media'', plus space]]),
      (utf16 ''ruby'',
         [seqs [BolM, words [''def'', ''class'', ''module'', ''require'', ''include''], WordB],
          seqs [WordB, words [''attr_accessor'', ''attr_reader'', ''attr_writer''], WordB],
          seqs [WordB, str ''do'', plus space, str ''|'', plus word, str ''|'', plus space]]),
      (utf16 ''go'',
         [seqs [BolM, words [''package'', ''import'', ''func'', ''type'', ''struct''], WordB],
          seqs [WordB, words [''fmt'', ''go'', ''chan'', ''defer'', ''goroutine''], WordB],
          seqs [WordB, words [''nil'', ''make'', ''new'', ''map'', ''slice''], WordB]]),
      (utf16 ''rust'',
         [seqs [BolM, words [''fn'', ''struct'', ''enum'', ''impl'', ''trait'', ''let'', ''mut'', ''pub''], WordB],
          seqs [WordB, words [''Option'', ''Result'', ''Some'', ''None'', ''Ok'', ''Err''], WordB],
          seqs [WordB, words [''match'', ''if let'', ''while let''], WordB]]),
      (utf16 ''swift'',
         [seqs [BolM, words [''import'', ''class'', ''struct'', ''enum'', ''protocol'', ''extension''], WordB],
          seqs [WordB, words [''var'', ''let'', ''func'', ''guard'', ''if let'', ''optional''], WordB],
          seqs [WordB, words [''UIViewController'', ''UIView'', ''SwiftUI''], WordB]]),
      (utf16 ''kotlin'',
         [seqs [BolM, words [''fun'', ''class'', ''interface'', ''object'', ''val'', ''var'', ''package'', ''import''],
                WordB],
          seqs [WordB, words [''override'', ''lateinit'', ''companion'', ''suspend''], WordB],
          seqs [WordB, words [''null'', ''Unit'', ''Any'', ''String'', ''Int'', ''Boolean''], WordB]])]"

text \<open>
  The score of a family is the number of its patterns that match. \<open>Math.max\<close> of the
  scores; below 2 the result is \<open>undefined\<close>; otherwise the first family, in the
  order of the table, whose score is the maximum.
\<close>

definition score :: "rx list \<Rightarrow> jsstring \<Rightarrow> nat" where
  "score patterns code = length (filter (\<lambda>pattern. test pattern code) patterns)"

definition scores :: "jsstring \<Rightarrow> (jsstring \<times> nat) list" where
  "scores code = map (\<lambda>(language, patterns). (language, score patterns code)) languagePatterns"

definition mathMax :: "nat list \<Rightarrow> nat" where
  "mathMax xs = foldr max xs 0"

definition detectLanguage :: "jsstring \<Rightarrow> jsstring option" where
  "detectLanguage code =
     (let maxScore = mathMax (map snd (scores code)) in
      if maxScore < 2 then None
      else map_option fst (find (\<lambda>(language, s). s = maxScore) (scores code)))"

subsection \<open>Example texts\<close>

definition python_sample :: jsstring where
  "python_sample = utf16 ''def foo():'' @ [10] @ utf16 ''    return 1''"

definition ruby_sample :: jsstring where
  "ruby_sample = utf16 ''class Foo'' @ [10] @ utf16 ''  attr_reader :bar'' @ [10] @ utf16 ''  self''"

definition indented_sample :: jsstring where
  "indented_sample = utf16 ''  a;'' @ [10] @ utf16 ''  b;'' @ [10] @ utf16 ''  c;''"


section \<open>Translating a text\<close>

subsection \<open>TranslationEngine (utils/translationEngine.ts)\<close>

text \<open>
  The completion backend is a parameter: given the tone and the text of a request it
  throws or answers with a content (which may be missing). Every function returns, next
  to its result, the texts it has sent to the backend.
\<close>

datatype completion = CompletionThrows | CompletionContent "jsstring option"

datatype engine_error = NotInitialized | BackendFailed

record translation_engine =
  openai :: "jsstring option"
  engineSettings :: "translation_settings option"

definition initialize :: "translation_engine \<Rightarrow> storage \<Rightarrow> bool \<times> translation_engine" where
  "initialize engine st =
     (let settings = getSettings st in
      if apiKey settings = [] then (False, engine\<lparr>engineSettings := Some settings\<rparr>)
      else (True, engine\<lparr>engineSettings := Some settings, openai := Some (apiKey settings)\<rparr>))"

definition callTranslationAPI ::
  "(tone \<Rightarrow> jsstring \<Rightarrow> completion) \<Rightarrow> translation_engine \<Rightarrow> jsstring \<Rightarrow> engine_error + jsstring" where
  "callTranslationAPI backend engine text =
     (if openai engine = None then Inl NotInitialized
      else
        (case backend (case engineSettings engine of None \<Rightarrow> Casual | Some s \<Rightarrow> tone s) text of
           CompletionThrows \<Rightarrow> Inl BackendFailed
         | CompletionContent c \<Rightarrow>
             Inr (case c of None \<Rightarrow> text | Some t \<Rightarrow> if t \<noteq> [] then t else text)))"

text \<open>The first failure among the results of \<open>Promise.all\<close>, or all the values.\<close>

fun allResults :: "(engine_error + jsstring) list \<Rightarrow> engine_error + jsstring list" where
  "allResults [] = Inr []"
| "allResults (Inl e # rs) = Inl e"
| "allResults (Inr v # rs) = (case allResults rs of Inl e \<Rightarrow> Inl e | Inr vs \<Rightarrow> Inr (v # vs))"

text \<open>
  \<open>TranslationEngine.translateText\<close>, with the clock readings as parameters: \<open>now\<close>
  for the cache check, \<open>now1\<close> and \<open>now2\<close> for storing the result. There is no test
  for an empty text: initialisation, the code-block test, the cache, then the backend.
  \<open>None\<close> stands for not returning (the chunker's loop).
\<close>

text \<open>
  The cache check of \<open>translateText\<close> (lines 56 to 67): the stored entry is used if
  it is there, its translation and its timestamp are truthy, and \<open>isCacheValid\<close>
  accepts it for the configured number of minutes.
\<close>

definition freshTranslation ::
  "translation_result option \<Rightarrow> jsstring \<Rightarrow> int \<Rightarrow> int \<Rightarrow> jsstring option" where
  "freshTranslation cachedTranslation text expiration now =
     (case cachedTranslation of
        None \<Rightarrow> None
      | Some c \<Rightarrow>
          if translatedText c \<noteq> [] \<and> timestamp c \<noteq> 0 \<and>
             isCacheValid
               (Some \<lparr>originalText = text, translatedText = translatedText c,
                      timestamp = timestamp c\<rparr>) expiration now
          then Some (translatedText c) else None)"

definition engine_translateText ::
  "(tone \<Rightarrow> jsstring \<Rightarrow> completion) \<Rightarrow> int \<Rightarrow> int \<Rightarrow> int \<Rightarrow> jsstring \<Rightarrow>
   translation_engine \<times> storage \<Rightarrow>
   ((engine_error + jsstring) \<times> translation_engine \<times> storage \<times> jsstring list) option" where
  "engine_translateText backend now now1 now2 text s =
     (let (engine0, st) = s;
          (initialized, engine) =
             (if openai engine0 = None \<or> engineSettings engine0 = None then initialize engine0 st
              else (True, engine0))
      in
      if \<not> initialized then Some (Inl NotInitialized, engine, st, [])
      else if isCodeBlock text then Some (Inr text, engine, st, [])
      else
        (let cachedTranslation = getTranslationCache text st;
             expiration = (case engineSettings engine of None \<Rightarrow> 5 | Some settings \<Rightarrow> cacheExpiration settings)
         in
         case freshTranslation cachedTranslation text expiration now of
           Some translated \<Rightarrow> Some (Inr translated, engine, st, [])
         | None \<Rightarrow>
             if length text > 4000 then
               (case splitTextIntoChunks text 4000 of
                  None \<Rightarrow> None
                | Some chunks \<Rightarrow>
                    (case allResults (map (callTranslationAPI backend engine) chunks) of
                       Inl e \<Rightarrow> Some (Inl e, engine, st, chunks)
                     | Inr translatedChunks \<Rightarrow>
                         (let translated = join (utf16 '' '') translatedChunks in
                          Some (Inr translated, engine,
                                saveTranslationCache text translated now1 now2 st, chunks))))
             else
               (case callTranslationAPI backend engine text of
                  Inl e \<Rightarrow> Some (Inl e, engine, st, [text])
                | Inr translated \<Rightarrow>
                    Some (Inr translated, engine,
                          saveTranslationCache text translated now1 now2 st, [text]))))"

subsection \<open>ApiClient (utils/apiClient.ts)\<close>

record api_data =
  data_output :: "jsstring option"
  data_output_text :: "jsstring option"
  data_choiceContent :: "jsstring option"

text \<open>
  The outcome of \<open>fetch\<close>: a rejected request, a response that is not \<open>ok\<close> (with
  the error message of its body, if any, and its status text), or the data of the answer.
\<close>

datatype fetch_result = FetchRejected | HttpError "jsstring option" jsstring | HttpOk api_data

datatype api_error = ClientNotInitialized | ApiKeyMissing | ApiError jsstring | FetchFailed

record api_client =
  clientSettings :: "translation_settings option"

definition apiClient_initialize :: "api_client \<Rightarrow> storage \<Rightarrow> bool \<times> api_client" where
  "apiClient_initialize client st =
     (let settings = getSettings st in
      (apiKey settings \<noteq> [], client\<lparr>clientSettings := Some settings\<rparr>))"

fun removeFirst :: "jsstring \<Rightarrow> jsstring \<Rightarrow> jsstring" where
  "removeFirst pat [] = []"
| "removeFirst pat (c # cs) =
     (if startsWith (c # cs) pat then drop (length pat) (c # cs) else c # removeFirst pat cs)"

definition truthy :: "jsstring option \<Rightarrow> bool" where
  "truthy v \<longleftrightarrow> (case v of None \<Rightarrow> False | Some t \<Rightarrow> t \<noteq> [])"

definition apiClient_translateText ::
  "(jsstring \<Rightarrow> tone \<Rightarrow> jsstring \<Rightarrow> fetch_result) \<Rightarrow> jsstring \<Rightarrow> api_client \<times> storage \<Rightarrow>
   (api_error + jsstring) \<times> api_client \<times> jsstring list" where
  "apiClient_translateText fetch text s =
     (let (client0, st) = s in
      if isBlank text then (Inr text, client0, [])
      else
        (let (initialized, client) =
               (if clientSettings client0 = None then apiClient_initialize client0 st
                else (True, client0))
         in
         if \<not> initialized then (Inl ClientNotInitialized, client, [])
         else
           (case clientSettings client of
              None \<Rightarrow> (Inl ApiKeyMissing, client, [])
            | Some settings \<Rightarrow>
                if apiKey settings = [] then (Inl ApiKeyMissing, client, [])
                else
                  (case fetch (apiKey settings) (tone settings) text of
                     FetchRejected \<Rightarrow> (Inl FetchFailed, client, [text])
                   | HttpError message statusText \<Rightarrow>
                       (Inl (ApiError (utf16 ''API Error: '' @
                          removeFirst
                            (utf16 ''You can find your API key at https://platform.openai.com/account/api-keys'')
                            (if truthy message then the message else statusText))),
                        client, [text])
                   | HttpOk data \<Rightarrow>
                       (Inr (if truthy (data_output data) then the (data_output data)
                             else if truthy (data_output_text data) then the (data_output_text data)
                             else if truthy (data_choiceContent data) then the (data_choiceContent data)
                             else text),
                        client, [text])))))"

subsection \<open>An initialised engine\<close>

definition ready_settings :: translation_settings where
  "ready_settings = \<lparr>apiKey = utf16 ''key'', tone = Casual, cacheExpiration = 5\<rparr>"

definition ready_engine :: translation_engine where
  "ready_engine = \<lparr>openai = Some (utf16 ''key''), engineSettings = Some ready_settings\<rparr>"

definition constant_backend :: "tone \<Rightarrow> jsstring \<Rightarrow> completion" where
  "constant_backend t text = CompletionContent (Some (utf16 ''X''))"



section \<open>Evaluating patterns\<close>

text \<open>The definitions that the simplifier unfolds to run a pattern on a text.\<close>

lemmas rx_defs = exec_def test_def seqs_def words_def oneOf_def str_def strI_def plus_def space_def
  nonSpace_def word_def anyOf_def noneOf_def utf16_def step_def atWordBoundary_def wordOrDot_def
  wordOrHyphen_def wordOrBackslash_def

lemmas char_defs = isWordChar_def isLineTerminator_def isWhiteSpace_def asciiUpper_def


section \<open>Code segments pass through translation untouched\<close>

lemma translateText_keeps_pageContext:
  "translateText rt text (cs, w) = (r, cs', w') \<Longrightarrow>
   (pageContext cs = None \<longleftrightarrow> pageContext cs' = None)"
  by (auto simp: translateText_def Let_def split: if_splits option.splits response.splits prod.splits)

lemma translateItem_keeps_pageContext:
  assumes "translateItem rt item (cs, w) = (pushed, cs', w')"
  shows "pageContext cs = None \<longleftrightarrow> pageContext cs' = None"
proof (cases "seg_type item \<noteq> utf16 ''code'' \<and> seg_content item \<noteq> []")
  case False
  with assms show ?thesis by (auto simp: translateItem_def split: if_splits)
next
  case True
  obtain r cs1 w1 where tt: "translateText rt (seg_content item) (cs, w) = (r, cs1, w1)"
    by (metis prod_cases3)
  have "cs' = cs1"
    using assms True tt by (simp add: translateItem_def split: if_splits)
  with translateText_keeps_pageContext[OF tt] show ?thesis by simp
qed

lemma translateItem_code:
  "seg_type item = utf16 ''code'' \<Longrightarrow> translateItem rt item st = (item, st)"
  by (simp add: translateItem_def)

lemma translateItems_shape:
  "translateItems rt items acc (cs, w) = (out, cs', w') \<Longrightarrow>
   (pageContext cs = None \<longleftrightarrow> pageContext cs' = None) \<and>
   (\<exists>new. out = acc @ new \<and> length new = length items \<and>
      (\<forall>i<length items. seg_type (items ! i) = utf16 ''code'' \<longrightarrow> new ! i = items ! i))"
proof (induction items arbitrary: acc cs w)
  case Nil
  then show ?case by simp
next
  case (Cons item items)
  obtain pushed cs1 w1 where step: "translateItem rt item (cs, w) = (pushed, cs1, w1)"
    by (metis prod_cases3)
  with Cons.prems have rest: "translateItems rt items (acc @ [pushed]) (cs1, w1) = (out, cs', w')"
    by simp
  note ih = Cons.IH[OF rest]
  from ih have keep': "pageContext cs1 = None \<longleftrightarrow> pageContext cs' = None"
    by (rule conjunct1)
  from ih have "\<exists>new. out = (acc @ [pushed]) @ new \<and> length new = length items \<and>
      (\<forall>i<length items. seg_type (items ! i) = utf16 ''code'' \<longrightarrow> new ! i = items ! i)"
    by (rule conjunct2)
  then obtain new where new: "out = (acc @ [pushed]) @ new" "length new = length items"
      "\<forall>i<length items. seg_type (items ! i) = utf16 ''code'' \<longrightarrow> new ! i = items ! i"
    by (elim exE conjE)
  have code: "pushed = item" if "seg_type item = utf16 ''code''"
    using step translateItem_code[OF that, of rt "(cs, w)"] by simp
  have nth: "(pushed # new) ! i = (item # items) ! i"
    if "i < length (item # items)" "seg_type ((item # items) ! i) = utf16 ''code''" for i
  proof (cases i)
    case 0
    with that code show ?thesis by simp
  next
    case (Suc j)
    with that new(3) show ?thesis by simp
  qed
  have keep: "pageContext cs = None \<longleftrightarrow> pageContext cs' = None"
    using translateItem_keeps_pageContext[OF step] keep' by simp
  have "out = acc @ (pushed # new) \<and> length (pushed # new) = length (item # items) \<and>
        (\<forall>i<length (item # items).
           seg_type ((item # items) ! i) = utf16 ''code'' \<longrightarrow> (pushed # new) ! i = (item # items) ! i)"
  proof (intro conjI allI impI)
    show "out = acc @ (pushed # new)" using new(1) by simp
    show "length (pushed # new) = length (item # items)" using new(2) by simp
  qed (rule nth)
  then have "\<exists>new'. out = acc @ new' \<and> length new' = length (item # items) \<and>
        (\<forall>i<length (item # items).
           seg_type ((item # items) ! i) = utf16 ''code'' \<longrightarrow> new' ! i = (item # items) ! i)"
    by (intro exI[of _ "pushed # new"])
  with keep show ?case by (rule conjI)
qed

text \<open>
  C1. Translating a segment sequence yields a sequence of the same length, and at every
  index whose input segment has type \<open>code\<close> the output segment is the input segment
  itself (so its text is identical), whatever the backend answers.
\<close>

theorem translateStructuredContent_preserves_code:
  assumes "pageContext cs = Some ctx" and "structuredContent ctx = Some items"
  shows "\<exists>ctx' out.
     pageContext (fst (translateStructuredContent rt (cs, w))) = Some ctx' \<and>
     translatedStructuredContent ctx' = Some out \<and>
     length out = length items \<and>
     (\<forall>i<length items. seg_type (items ! i) = utf16 ''code'' \<longrightarrow>
        out ! i = items ! i \<and> seg_content (out ! i) = seg_content (items ! i))"
proof -
  obtain out cs' w' where run: "translateItems rt items [] (cs, w) = (out, cs', w')"
    by (metis prod_cases3)
  from translateItems_shape[OF run] assms(1)
  obtain ctx1 where ctx1: "pageContext cs' = Some ctx1"
    and shape: "length out = length items"
      "\<forall>i<length items. seg_type (items ! i) = utf16 ''code'' \<longrightarrow> out ! i = items ! i"
    by auto
  have "pageContext (fst (translateStructuredContent rt (cs, w))) =
          Some (ctx1\<lparr>translatedStructuredContent := Some out\<rparr>)"
    using assms run ctx1 by (simp add: translateStructuredContent_def)
  with shape show ?thesis by auto
qed

theorem translateStructuredContent_preserves_code_witness:
  "pageContext example_script = Some example_context \<and>
   structuredContent example_context = Some example_items \<and>
   seg_type (example_items ! 1) = utf16 ''code'' \<and>
   (\<exists>ctx' out.
      pageContext (fst (translateStructuredContent example_runtime (example_script, ()))) = Some ctx' \<and>
      translatedStructuredContent ctx' = Some out \<and>
      length out = 2 \<and> out ! 1 = example_items ! 1 \<and>
      seg_content (out ! 1) = utf16 ''x = 1'')"
proof -
  have h1: "pageContext example_script = Some example_context"
    by (simp add: example_script_def)
  have h2: "structuredContent example_context = Some example_items"
    by (simp add: example_context_def)
  have code: "seg_type (example_items ! 1) = utf16 ''code''"
    and len: "length example_items = 2"
    and ctxt: "seg_content (example_items ! 1) = utf16 ''x = 1''"
    by (simp_all add: example_items_def)
  from translateStructuredContent_preserves_code[OF h1 h2, of example_runtime "()"]
  obtain ctx' out where
    "pageContext (fst (translateStructuredContent example_runtime (example_script, ()))) = Some ctx'"
    "translatedStructuredContent ctx' = Some out" "length out = length example_items"
    "\<forall>i<length example_items. seg_type (example_items ! i) = utf16 ''code'' \<longrightarrow>
       out ! i = example_items ! i \<and> seg_content (out ! i) = seg_content (example_items ! i)"
    by (elim exE conjE)
  with code len ctxt have
    "pageContext (fst (translateStructuredContent example_runtime (example_script, ()))) = Some ctx' \<and>
      translatedStructuredContent ctx' = Some out \<and>
      length out = 2 \<and> out ! 1 = example_items ! 1 \<and>
      seg_content (out ! 1) = utf16 ''x = 1''"
    by simp
  then have "\<exists>ctx' out.
      pageContext (fst (translateStructuredContent example_runtime (example_script, ()))) = Some ctx' \<and>
      translatedStructuredContent ctx' = Some out \<and>
      length out = 2 \<and> out ! 1 = example_items ! 1 \<and>
      seg_content (out ! 1) = utf16 ''x = 1''"
    by (intro exI[of _ ctx'] exI[of _ out])
  with h1 h2 code show ?thesis by simp
qed


section \<open>The context store\<close>

lemma pageKey_not_recentPages: "pageKey u \<noteq> utf16 ''recentPages''"
  by (simp add: pageKey_def utf16_def)

lemma getPageContext_savePageContext:
  "getPageContext (url c) (savePageContext c st) = Some c"
  using pageKey_not_recentPages[of "url c"]
  by (simp add: getPageContext_def savePageContext_def Let_def)

lemma getRecentPages_savePageContext:
  "getRecentPages (savePageContext c st) =
     take 10 (url c # filter (\<lambda>u. u \<noteq> url c) (getRecentPages st))"
  using pageKey_not_recentPages[of "url c"]
  by (simp add: getRecentPages_def savePageContext_def Let_def)

lemma take_length_butlast: "length xs = Suc n \<Longrightarrow> take n xs = butlast xs"
  by (simp add: butlast_conv_take)

text \<open>
  C9, as stated, fails: the store's \<open>savePageContext\<close> never reads the clock. A context
  last updated at time 1000 and saved by the chat handler at time 2000 is stored with
  \<open>lastUpdated = 1000\<close>.
\<close>

theorem savePageContext_keeps_lastUpdated_counterexample:
  "map_option lastUpdated
     (getPageContext (utf16 ''u'')
        (snd (handleChatQuery (\<lambda>q c. Some (utf16 ''A'')) 2000 2000 (utf16 ''Q'') (utf16 ''u'')
                stale_store))) = Some 1000 \<and>
   map_option lastUpdated
     (getPageContext (utf16 ''u'') (savePageContext stale_context stale_store)) \<noteq> Some 2000"
proof -
  have u: "url stale_context = utf16 ''u''"
    by (simp add: stale_context_def example_context_def)
  have g: "getPageContext (utf16 ''u'') stale_store = Some stale_context"
    by (simp add: getPageContext_def stale_store_def)
  have l: "lastUpdated stale_context = 1000"
    by (simp add: stale_context_def)
  let ?c = "stale_context\<lparr>chatHistory := chatHistory stale_context @
               [\<lparr>cm_role = User, cm_content = utf16 ''Q'', cm_timestamp = 2000\<rparr>,
                \<lparr>cm_role = Assistant, cm_content = utf16 ''A'', cm_timestamp = 2000\<rparr>]\<rparr>"
  have "snd (handleChatQuery (\<lambda>q c. Some (utf16 ''A'')) 2000 2000 (utf16 ''Q'') (utf16 ''u'')
               stale_store) = savePageContext ?c stale_store"
    by (simp add: handleChatQuery_def g)
  moreover have "getPageContext (utf16 ''u'') (savePageContext ?c stale_store) = Some ?c"
    using getPageContext_savePageContext[of ?c stale_store] u by simp
  moreover have "getPageContext (utf16 ''u'') (savePageContext stale_context stale_store)
                   = Some stale_context"
    using getPageContext_savePageContext[of stale_context stale_store] u by simp
  ultimately show ?thesis using l by simp
qed

text \<open>
  C9, amended. The store's \<open>save\<close> persists the context exactly as it is passed
  (\<open>lastUpdated\<close> included); it is the content script's own \<open>savePageContext\<close> that
  sets \<open>lastUpdated\<close> to the current time before it sends the context to be stored.
  Every save puts the document identifier at the front of the recently-used list, removes
  its other occurrences and cuts the list to ten entries, so that the saved identifier is
  always in the list, and saving an eleventh document when ten others are tracked drops
  the last (least recently used) of them.
\<close>

theorem savePageContext_recent_pages:
  "getPageContext (url c) (savePageContext c st) = Some c \<and>
   getRecentPages (savePageContext c st) =
     take 10 (url c # filter (\<lambda>u. u \<noteq> url c) (getRecentPages st)) \<and>
   hd (getRecentPages (savePageContext c st)) = url c \<and>
   count_list (getRecentPages (savePageContext c st)) (url c) = 1 \<and>
   length (getRecentPages (savePageContext c st)) \<le> 10 \<and>
   (length (getRecentPages st) = 10 \<and> url c \<notin> set (getRecentPages st) \<longrightarrow>
      getRecentPages (savePageContext c st) = url c # butlast (getRecentPages st)) \<and>
   (pageContext cs = Some ctx \<longrightarrow>
      getPageContext (url ctx) (snd (contentScript_savePageContext now (cs, st)))
        = Some (ctx\<lparr>lastUpdated := now\<rparr>))"
proof -
  let ?old = "getRecentPages st"
  let ?new = "getRecentPages (savePageContext c st)"
  have eq: "?new = take 10 (url c # filter (\<lambda>u. u \<noteq> url c) ?old)"
    by (rule getRecentPages_savePageContext)
  then have eq': "?new = url c # take 9 (filter (\<lambda>u. u \<noteq> url c) ?old)"
    by simp
  have "url c \<notin> set (take 9 (filter (\<lambda>u. u \<noteq> url c) ?old))"
    using in_set_takeD by fastforce
  then have cnt: "count_list ?new (url c) = 1"
    using eq' by (simp add: count_list_0_iff)
  have len: "length ?new \<le> 10"
    using eq by simp
  have evict: "?new = url c # butlast ?old"
    if "length ?old = 10" "url c \<notin> set ?old"
  proof -
    from that(2) have "filter (\<lambda>u. u \<noteq> url c) ?old = ?old"
      by (simp add: filter_id_conv) metis
    with eq' that(1) show ?thesis
      by (simp add: take_length_butlast)
  qed
  have cs: "getPageContext (url ctx) (snd (contentScript_savePageContext now (cs, st)))
              = Some (ctx\<lparr>lastUpdated := now\<rparr>)" if "pageContext cs = Some ctx"
    using that getPageContext_savePageContext[of "ctx\<lparr>lastUpdated := now\<rparr>" st]
    by (simp add: contentScript_savePageContext_def handleSavePageContext_def Let_def)
  show ?thesis
    using getPageContext_savePageContext[of c st] eq eq' cnt len evict cs by simp
qed

theorem savePageContext_recent_pages_witness:
  "length (getRecentPages ten_store) = 10 \<and> url d11_context \<notin> set (getRecentPages ten_store) \<and>
   getRecentPages (savePageContext d11_context ten_store) =
     map (\<lambda>n. [100, n]) [11, 1, 2, 3, 4, 5, 6, 7, 8, 9] \<and>
   pageContext example_script = Some example_context \<and>
   getPageContext (url example_context)
     (snd (contentScript_savePageContext 2000 (example_script, ten_store)))
     = Some (example_context\<lparr>lastUpdated := 2000\<rparr>)"
proof -
  have r: "getRecentPages ten_store = ten_pages"
    by (simp add: getRecentPages_def ten_store_def)
  have h: "length (getRecentPages ten_store) = 10 \<and> url d11_context \<notin> set (getRecentPages ten_store)"
    by (simp add: r ten_pages_def d11_context_def)
  have p: "pageContext example_script = Some example_context"
    by (simp add: example_script_def)
  from savePageContext_recent_pages[of d11_context ten_store example_script example_context 2000] h p
  have "length (getRecentPages ten_store) = 10 \<and> url d11_context \<notin> set (getRecentPages ten_store) \<longrightarrow>
      getRecentPages (savePageContext d11_context ten_store) = url d11_context # butlast (getRecentPages ten_store)"
    and "pageContext example_script = Some example_context \<longrightarrow> getPageContext (url example_context)
     (snd (contentScript_savePageContext 2000 (example_script, ten_store)))
     = Some (example_context\<lparr>lastUpdated := 2000\<rparr>)"
    by blast+
  with h p have "getRecentPages (savePageContext d11_context ten_store) = url d11_context # butlast ten_pages"
    and "getPageContext (url example_context)
     (snd (contentScript_savePageContext 2000 (example_script, ten_store)))
     = Some (example_context\<lparr>lastUpdated := 2000\<rparr>)"
    by (simp_all add: r)
  with h p show ?thesis
    by (simp add: ten_pages_def d11_context_def)
qed


section \<open>The translation cache\<close>

lemma manageCache_local:
  "storage_local (manageCache now st) key =
     (case storage_local st key of
        None \<Rightarrow> None
      | Some v \<Rightarrow> if toRemove now key v then None else Some v)"
  by (simp add: manageCache_def Let_def restrict_map_def split: option.splits)

lemma manageCache_sync: "storage_sync (manageCache now st) = storage_sync st"
  by (simp add: manageCache_def Let_def)

lemma toRemove_CacheV:
  "toRemove now key (CacheV e) \<longleftrightarrow>
     startsWith key (utf16 ''cache_'') \<and> timestamp e \<noteq> 0 \<and> now - timestamp e > expirationTime"
  by (simp add: toRemove_def timestampOf_def)

lemma toRemove_other:
  "\<not> toRemove now key (PageContextV c)" "\<not> toRemove now key (RecentPagesV ps)"
  by (simp_all add: toRemove_def timestampOf_def)

lemma getTranslationCache_saveTranslationCache:
  assumes "now2 - now1 \<le> expirationTime"
  shows "getTranslationCache t (saveTranslationCache t u now1 now2 st) =
           Some \<lparr>originalText = t, translatedText = u, timestamp = now1\<rparr>"
  using assms
  by (simp add: getTranslationCache_def saveTranslationCache_def manageCache_local toRemove_CacheV)

text \<open>
  C5, as stated, fails. The store's \<open>get\<close> reads no clock: five minutes after the
  entry was written it still returns the entry, not null. And the lookup that does apply
  the short TTL, in \<open>translateText\<close>, takes an entry with an empty translation
  for a miss even while the TTL has not elapsed.
\<close>

theorem cache_get_ignores_ttl_counterexample:
  "getTranslationCache (utf16 ''a'')
     (saveTranslationCache (utf16 ''a'') (utf16 ''X'') 1000 1001 empty_store)
     = Some \<lparr>originalText = utf16 ''a'', translatedText = utf16 ''X'', timestamp = 1000\<rparr> \<and>
   \<not> isCacheValid
      (getTranslationCache (utf16 ''a'')
         (saveTranslationCache (utf16 ''a'') (utf16 ''X'') 1000 1001 empty_store)) 5 301000 \<and>
   freshTranslation
     (getTranslationCache (utf16 ''a'') (saveTranslationCache (utf16 ''a'') [] 1000 1001 empty_store))
     (utf16 ''a'') 5 2000 = None"
proof -
  have h: "(1001::int) - 1000 \<le> expirationTime"
    by (simp add: expirationTime_def)
  show ?thesis
    by (simp add: getTranslationCache_saveTranslationCache[OF h] isCacheValid_def
        freshTranslation_def)
qed

lemma freshTranslation_entry:
  "freshTranslation (Some \<lparr>originalText = t, translatedText = u, timestamp = ts\<rparr>) t' ttl now =
     (if u \<noteq> [] \<and> ts \<noteq> 0 \<and> now - ts < ttl * 60 * 1000 then Some u else None)"
  by (simp add: freshTranslation_def isCacheValid_def)

lemma engine_translateText_cached:
  assumes "openai engine \<noteq> None" and "engineSettings engine = Some settings"
    and "\<not> isCodeBlock t"
    and "freshTranslation (getTranslationCache t st) t (cacheExpiration settings) now = Some u"
  shows "engine_translateText backend now n1 n2 t (engine, st) = Some (Inr u, engine, st, [])"
proof -
  from assms(1) have ready: "(openai engine = None) = False"
    by simp
  show ?thesis
    by (simp add: engine_translateText_def ready assms(2,3,4))
qed

text \<open>
  C5, amended. For every source text \<open>t\<close> and translation \<open>u\<close>, the store's
  \<open>get\<close> on \<open>t\<close> after \<open>put(t, u)\<close> (whose own eviction sweep runs within the
  retention window of the entry's creation) returns the stored entry, with translation
  \<open>u\<close> and creation time \<open>now1\<close>, whatever the current time: it applies no TTL.
  The short TTL (five minutes by default) is applied by the lookup in
  \<open>translateText\<close>: it yields \<open>u\<close> exactly while \<open>now - createdAt\<close> is below the
  configured minutes, provided \<open>u\<close> is not empty and the creation time is not zero,
  and nothing once the TTL has elapsed; \<open>translateText\<close> then returns \<open>u\<close> without
  a backend call. Without a stored entry for the fingerprint of a text the \<open>get\<close>
  yields null.
\<close>

theorem cache_lookup_after_put:
  assumes "now2 - now1 \<le> expirationTime"
  shows "getTranslationCache t (saveTranslationCache t u now1 now2 st)
           = Some \<lparr>originalText = t, translatedText = u, timestamp = now1\<rparr> \<and>
     freshTranslation (getTranslationCache t (saveTranslationCache t u now1 now2 st)) t ttl now
       = (if u \<noteq> [] \<and> now1 \<noteq> 0 \<and> now - now1 < ttl * 60 * 1000 then Some u else None) \<and>
     (isCacheValid (getTranslationCache t (saveTranslationCache t u now1 now2 st)) ttl now
        \<longleftrightarrow> now - now1 < ttl * 60 * 1000) \<and>
     cacheExpiration DEFAULT_SETTINGS = 5 \<and>
     (openai engine \<noteq> None \<and> engineSettings engine = Some settings \<and> \<not> isCodeBlock t \<and>
      u \<noteq> [] \<and> now1 \<noteq> 0 \<and> now - now1 < cacheExpiration settings * 60 * 1000 \<longrightarrow>
        engine_translateText backend now n1 n2 t (engine, saveTranslationCache t u now1 now2 st)
          = Some (Inr u, engine, saveTranslationCache t u now1 now2 st, [])) \<and>
     (storage_local st' (cacheKey t') = None \<longrightarrow>
        getTranslationCache t' st' = None \<and>
        freshTranslation (getTranslationCache t' st') t' ttl now = None)"
proof -
  let ?st = "saveTranslationCache t u now1 now2 st"
  let ?e = "\<lparr>originalText = t, translatedText = u, timestamp = now1\<rparr>"
  have get: "getTranslationCache t ?st = Some ?e"
    by (rule getTranslationCache_saveTranslationCache[OF assms])
  have fresh: "freshTranslation (getTranslationCache t ?st) t m now
       = (if u \<noteq> [] \<and> now1 \<noteq> 0 \<and> now - now1 < m * 60 * 1000 then Some u else None)" for m
    by (simp only: get freshTranslation_entry)
  have valid: "isCacheValid (getTranslationCache t ?st) ttl now \<longleftrightarrow> now - now1 < ttl * 60 * 1000"
    by (simp add: get isCacheValid_def)
  have dflt: "cacheExpiration DEFAULT_SETTINGS = 5"
    by (simp add: DEFAULT_SETTINGS_def)
  have flow: "engine_translateText backend now n1 n2 t (engine, ?st) = Some (Inr u, engine, ?st, [])"
    if "openai engine \<noteq> None" "engineSettings engine = Some settings" "\<not> isCodeBlock t"
      "u \<noteq> []" "now1 \<noteq> 0" "now - now1 < cacheExpiration settings * 60 * 1000"
  proof (rule engine_translateText_cached[OF that(1,2,3)])
    show "freshTranslation (getTranslationCache t ?st) t (cacheExpiration settings) now = Some u"
      using that(4,5,6) by (simp add: fresh)
  qed
  have miss: "getTranslationCache t' st' = None \<and>
        freshTranslation (getTranslationCache t' st') t' ttl now = None"
    if "storage_local st' (cacheKey t') = None"
    using that by (simp add: getTranslationCache_def freshTranslation_def)
  from get fresh[of ttl] valid dflt flow miss show ?thesis by blast
qed

lemma cacheKey_a: "cacheKey (utf16 ''a'') = utf16 ''cache_2p''"
  by (simp add: cacheKey_def hashString_def hashStep_def toString36_def utf16_def digit36_def)

theorem cache_lookup_after_put_witness:
  "(1001::int) - 1000 \<le> expirationTime \<and>
   storage_local empty_store (cacheKey (utf16 ''b'')) = None \<and>
   getTranslationCache (utf16 ''a'')
     (saveTranslationCache (utf16 ''a'') (utf16 ''X'') 1000 1001 empty_store)
     = Some \<lparr>originalText = utf16 ''a'', translatedText = utf16 ''X'', timestamp = 1000\<rparr> \<and>
   freshTranslation
     (getTranslationCache (utf16 ''a'')
        (saveTranslationCache (utf16 ''a'') (utf16 ''X'') 1000 1001 empty_store))
     (utf16 ''a'') 5 300999 = Some (utf16 ''X'') \<and>
   freshTranslation
     (getTranslationCache (utf16 ''a'')
        (saveTranslationCache (utf16 ''a'') (utf16 ''X'') 1000 1001 empty_store))
     (utf16 ''a'') 5 301000 = None \<and>
   openai ready_engine \<noteq> None \<and> engineSettings ready_engine = Some ready_settings \<and>
   \<not> isCodeBlock (utf16 ''a'') \<and>
   engine_translateText constant_backend 300999 0 0 (utf16 ''a'')
     (ready_engine, saveTranslationCache (utf16 ''a'') (utf16 ''X'') 1000 1001 empty_store)
     = Some (Inr (utf16 ''X''), ready_engine,
             saveTranslationCache (utf16 ''a'') (utf16 ''X'') 1000 1001 empty_store, []) \<and>
   getTranslationCache (utf16 ''b'') empty_store = None"
proof -
  have h: "(1001::int) - 1000 \<le> expirationTime"
    by (simp add: expirationTime_def)
  have n: "storage_local empty_store (cacheKey (utf16 ''b'')) = None"
    by (simp add: empty_store_def)
  have x: "utf16 ''X'' \<noteq> []"
    by (simp add: utf16_def)
  have r: "openai ready_engine \<noteq> None" "engineSettings ready_engine = Some ready_settings"
    "cacheExpiration ready_settings = 5"
    by (simp_all add: ready_engine_def ready_settings_def)
  have c: "\<not> isCodeBlock (utf16 ''a'')"
    by (simp add: isCodeBlock_def codePatterns_def specialChar_def indentPattern_def lineFeed_def
        rx_defs char_defs)
  note a = cache_lookup_after_put[OF h, of "utf16 ''a''" "utf16 ''X''" empty_store 5 300999
      ready_engine ready_settings constant_backend 0 0 empty_store "utf16 ''b''"]
  note b = cache_lookup_after_put[OF h, of "utf16 ''a''" "utf16 ''X''" empty_store 5 301000
      ready_engine ready_settings constant_backend 0 0 empty_store "utf16 ''b''"]
  note a1 = a[THEN conjunct1]
  have a2: "freshTranslation
       (getTranslationCache (utf16 ''a'')
          (saveTranslationCache (utf16 ''a'') (utf16 ''X'') 1000 1001 empty_store))
       (utf16 ''a'') 5 300999 = Some (utf16 ''X'')"
    by (simp only: a[THEN conjunct2, THEN conjunct1]) (simp add: x)
  have a3: "engine_translateText constant_backend 300999 0 0 (utf16 ''a'')
       (ready_engine, saveTranslationCache (utf16 ''a'') (utf16 ''X'') 1000 1001 empty_store)
       = Some (Inr (utf16 ''X''), ready_engine,
               saveTranslationCache (utf16 ''a'') (utf16 ''X'') 1000 1001 empty_store, [])"
    by (rule a[THEN conjunct2, THEN conjunct2, THEN conjunct2, THEN conjunct2, THEN conjunct1,
          THEN mp]) (simp add: x r c)
  have a4: "getTranslationCache (utf16 ''b'') empty_store = None"
    using a[THEN conjunct2, THEN conjunct2, THEN conjunct2, THEN conjunct2, THEN conjunct2,
        THEN mp, OF n] by (rule conjunct1)
  have b1: "freshTranslation
       (getTranslationCache (utf16 ''a'')
          (saveTranslationCache (utf16 ''a'') (utf16 ''X'') 1000 1001 empty_store))
       (utf16 ''a'') 5 301000 = None"
    by (simp only: b[THEN conjunct2, THEN conjunct1]) simp
  from h n a1 a2 a3 a4 b1 r(1,2) c show ?thesis by (intro conjI)
qed

text \<open>
  C6, as stated, fails for an entry whose timestamp is zero: the sweep takes an item for a
  cache entry only if its \<open>timestamp\<close> is truthy. Such an entry, eight days old, stays.
\<close>

theorem manageCache_zero_timestamp_counterexample:
  "startsWith (utf16 ''cache_2p'') (utf16 ''cache_'') \<and>
   691200000 - timestamp epoch_entry > expirationTime \<and>
   storage_local (manageCache 691200000 epoch_store) (utf16 ''cache_2p'') = Some (CacheV epoch_entry)"
  by (simp add: manageCache_local toRemove_CacheV epoch_store_def epoch_entry_def
      expirationTime_def startsWith_def utf16_def)

lemma pageKey_not_cache: "\<not> startsWith (pageKey u) (utf16 ''cache_'')"
  by (simp add: startsWith_def pageKey_def utf16_def)

lemma recentPages_not_cache: "\<not> startsWith (utf16 ''recentPages'') (utf16 ''cache_'')"
  by (simp add: startsWith_def utf16_def)

text \<open>
  C6, amended. For every stored state and every clock value, \<open>evict\<close> removes exactly
  the items under a \<open>cache_\<close> key that carry a non-zero timestamp and whose age
  \<open>now - createdAt\<close> exceeds seven days. Every other stored item is unchanged: cache
  entries within the retention window (also those stale by the short TTL), page contexts,
  the recent-pages list and the settings.
\<close>

theorem manageCache_evicts_exactly:
  "storage_local (manageCache now st) key =
     (if \<exists>e. storage_local st key = Some (CacheV e) \<and> startsWith key (utf16 ''cache_'') \<and>
             timestamp e \<noteq> 0 \<and> now - timestamp e > 7 * 24 * 60 * 60 * 1000
      then None else storage_local st key) \<and>
   (storage_local st key = Some (CacheV e) \<and> now - timestamp e \<le> 7 * 24 * 60 * 60 * 1000 \<longrightarrow>
      storage_local (manageCache now st) key = Some (CacheV e)) \<and>
   getPageContext u (manageCache now st) = getPageContext u st \<and>
   getRecentPages (manageCache now st) = getRecentPages st \<and>
   getSettings (manageCache now st) = getSettings st"
proof -
  have main: "storage_local (manageCache now st) key =
     (if \<exists>e. storage_local st key = Some (CacheV e) \<and> startsWith key (utf16 ''cache_'') \<and>
             timestamp e \<noteq> 0 \<and> now - timestamp e > 7 * 24 * 60 * 60 * 1000
      then None else storage_local st key)"
  proof (cases "storage_local st key")
    case None
    then show ?thesis by (simp add: manageCache_local)
  next
    case (Some v)
    then show ?thesis
      by (cases v) (simp_all add: manageCache_local toRemove_CacheV toRemove_other expirationTime_def)
  qed
  have page: "storage_local (manageCache now st) (pageKey u) = storage_local st (pageKey u)"
    using pageKey_not_cache[of u]
    by (simp add: manageCache_local toRemove_def split: option.splits)
  have recent: "storage_local (manageCache now st) (utf16 ''recentPages'')
                  = storage_local st (utf16 ''recentPages'')"
    using recentPages_not_cache
    by (simp add: manageCache_local toRemove_def split: option.splits)
  have "getPageContext u (manageCache now st) = getPageContext u st"
    by (simp add: getPageContext_def page)
  moreover have "getRecentPages (manageCache now st) = getRecentPages st"
    by (simp add: getRecentPages_def recent)
  moreover have "getSettings (manageCache now st) = getSettings st"
    by (simp add: getSettings_def manageCache_sync)
  moreover have "storage_local st key = Some (CacheV e) \<and> now - timestamp e \<le> 7 * 24 * 60 * 60 * 1000 \<longrightarrow>
      storage_local (manageCache now st) key = Some (CacheV e)"
    by (simp add: manageCache_local toRemove_CacheV expirationTime_def)
  ultimately show ?thesis using main by simp
qed

theorem manageCache_evicts_exactly_witness:
  "storage_local mixed_store (utf16 ''cache_2p'') = Some (CacheV old_entry) \<and>
   startsWith (utf16 ''cache_2p'') (utf16 ''cache_'') \<and> timestamp old_entry \<noteq> 0 \<and>
   700000000 - timestamp old_entry > 7 * 24 * 60 * 60 * 1000 \<and>
   storage_local (manageCache 700000000 mixed_store) (utf16 ''cache_2p'') = None \<and>
   storage_local mixed_store (utf16 ''cache_2q'') = Some (CacheV stale_entry) \<and>
   700000000 - timestamp stale_entry \<le> 7 * 24 * 60 * 60 * 1000 \<and>
   \<not> isCacheValid (Some stale_entry) 5 700000000 \<and>
   storage_local (manageCache 700000000 mixed_store) (utf16 ''cache_2q'') = Some (CacheV stale_entry) \<and>
   getPageContext (utf16 ''u'') (manageCache 700000000 mixed_store) = Some example_context"
proof -
  have a: "storage_local mixed_store (utf16 ''cache_2p'') = Some (CacheV old_entry)"
    and b: "storage_local mixed_store (utf16 ''cache_2q'') = Some (CacheV stale_entry)"
    and c: "getPageContext (utf16 ''u'') mixed_store = Some example_context"
    by (simp_all add: mixed_store_def getPageContext_def pageKey_def utf16_def)
  have d: "startsWith (utf16 ''cache_2p'') (utf16 ''cache_'') \<and> timestamp old_entry \<noteq> 0 \<and>
      700000000 - timestamp old_entry > 7 * 24 * 60 * 60 * 1000 \<and>
      700000000 - timestamp stale_entry \<le> 7 * 24 * 60 * 60 * 1000 \<and>
      \<not> isCacheValid (Some stale_entry) 5 700000000"
    by (simp add: startsWith_def utf16_def old_entry_def stale_entry_def isCacheValid_def)
  have "storage_local (manageCache 700000000 mixed_store) (utf16 ''cache_2p'') = None"
    using manageCache_evicts_exactly[of 700000000 mixed_store "utf16 ''cache_2p''" old_entry "utf16 ''u''"]
      a d by auto
  moreover have
    "storage_local (manageCache 700000000 mixed_store) (utf16 ''cache_2q'') = Some (CacheV stale_entry) \<and>
     getPageContext (utf16 ''u'') (manageCache 700000000 mixed_store) = Some example_context"
    using manageCache_evicts_exactly[of 700000000 mixed_store "utf16 ''cache_2q''" stale_entry "utf16 ''u''"]
      b c d by auto
  ultimately show ?thesis using a b d by simp
qed


section \<open>Properties of the chunker\<close>

lemma splitWith_no_match:
  assumes "\<And>p c s. c \<in> set a \<Longrightarrow> matcher p (c # s) = None"
  shows "splitWith matcher prev piece (a @ s) =
           splitWith matcher (if a = [] then prev else Some (last a)) (piece @ a) s"
  using assms
proof (induction a arbitrary: prev piece)
  case Nil
  then show ?case by simp
next
  case (Cons c a)
  have "matcher prev (c # a @ s) = None"
    using Cons.prems[of c prev "a @ s"] by simp
  then have "splitWith matcher prev piece ((c # a) @ s) =
               splitWith matcher (Some c) (piece @ [c]) (a @ s)"
    by simp
  also have "\<dots> = splitWith matcher (if a = [] then Some c else Some (last a)) ((piece @ [c]) @ a) s"
    using Cons.IH[of "Some c" "piece @ [c]"] Cons.prems by simp
  finally show ?case by simp
qed

lemma paragraphSeparator_not_linefeed: "c \<noteq> 10 \<Longrightarrow> paragraphSeparator p (c # s) = None"
  by (simp add: paragraphSeparator_def Let_def)

lemma splitParagraphs_two:
  assumes "10 \<notin> set a" "10 \<notin> set b" "b \<noteq> []" "\<not> isWhiteSpace (hd b)"
  shows "splitParagraphs (a @ [10, 10] @ b) = [a, b]"
proof -
  obtain x b' where b: "b = x # b'" using assms(3) by (cases b) auto
  have na: "\<And>p c s. c \<in> set a \<Longrightarrow> paragraphSeparator p (c # s) = None"
    using assms(1) by (metis paragraphSeparator_not_linefeed)
  have nb: "\<And>p c s. c \<in> set b \<Longrightarrow> paragraphSeparator p (c # s) = None"
    using assms(2) by (metis paragraphSeparator_not_linefeed)
  have ws10: "isWhiteSpace 10" by (simp add: isWhiteSpace_def)
  have sep: "paragraphSeparator p (10 # 10 # b) = Some 1" for p
    using assms(4) b ws10 by (simp add: paragraphSeparator_def)
  have "splitParagraphs (a @ [10, 10] @ b) =
          splitWith paragraphSeparator (if a = [] then None else Some (last a)) a (10 # 10 # b)"
    using splitWith_no_match[of a paragraphSeparator None "[]" "[10, 10] @ b", OF na]
    by (simp add: splitParagraphs_def)
  also have "\<dots> = a # splitWith paragraphSeparator (Some 10) [] b"
    by (simp add: sep)
  also have "splitWith paragraphSeparator (Some 10) [] b = [b]"
    using splitWith_no_match[of b paragraphSeparator "Some 10" "[]" "[]", OF nb] by simp
  finally show ?thesis .
qed

lemma splitTextIntoChunks_joined_overflow:
  assumes "10 \<notin> set a" "10 \<notin> set b" "a \<noteq> []" "b \<noteq> []" "\<not> isWhiteSpace (hd b)"
    and "length a + length b = m"
  shows "splitTextIntoChunks (a @ [10, 10] @ b) m = Some [a @ [10, 10] @ b]"
proof -
  have "foldOption (paragraphStep m) ([], []) [a, b] = Some ([], a @ [10, 10] @ b)"
    using assms(3,4,6) by (auto simp: paragraphStep_def)
  then show ?thesis
    using assms(3,6) splitParagraphs_two[OF assms(1,2,4,5)]
    by (simp add: splitTextIntoChunks_def)
qed

text \<open>
  C4 fails on the code: two paragraphs of 2000 characters each, separated by a blank
  line, are 4002 characters; with the default \<open>maxChunkSize = 4000\<close> the chunker joins
  them again (the test \<open>2000 + 2000 > 4000\<close> does not count the separator) and returns
  a single chunk of 4002 characters.
\<close>

theorem splitTextIntoChunks_chunk_too_long:
  "splitTextIntoChunks two_paragraphs 4000 = Some [two_paragraphs] \<and>
   length two_paragraphs = 4002"
proof -
  have "splitTextIntoChunks (replicate 2000 97 @ [10, 10] @ replicate 2000 98) 4000 =
          Some [replicate 2000 97 @ [10, 10] @ replicate 2000 98]"
    by (rule splitTextIntoChunks_joined_overflow) (simp_all add: isWhiteSpace_def)
  then show ?thesis by (simp add: two_paragraphs_def)
qed



lemma slices_Nil [simp]: "slices m [] = []"
  by (subst slices.simps) simp





lemma glue_Cons [simp]: "glue (s # seps) (p # ps) = s @ p @ glue seps ps"
  by (simp add: glue_def)

lemma glue_Nil [simp]: "glue [] ps = []" "glue seps [] = []"
  by (simp_all add: glue_def)














subsection \<open>What the loops write\<close>

















text \<open>
  The hard cut pushes its slices onto \<open>chunks\<close> while the chunk accumulated before
  it is still pending, so that earlier text comes out after later text.
\<close>

lemma splitTextIntoChunks_hard_cut_before_pending:
  "splitTextIntoChunks (utf16 ''ab. cdefghij'') 5
     = Some [utf16 ''cdefg'', utf16 ''hij'', utf16 ''ab.'']"
  by (simp add: splitTextIntoChunks_def splitParagraphs_def paragraphSeparator_def
      paragraphStep_def splitSentences_def sentenceSeparator_def sentenceStep_def hardCut.simps
      utf16_def isWhiteSpace_def)



section \<open>The order of extracted segments\<close>

text \<open>
  C2, as stated, fails: for a paragraph followed by a heading the extractor emits the
  heading first.
\<close>

theorem structuredSegments_order_counterexample:
  "documentOrderSegments example_tree =
     [paragraphSegment (Element (utf16 ''p'') [] [TextNode (utf16 ''A'')]),
      headingSegment (Element (utf16 ''h1'') [] [TextNode (utf16 ''B'')])] \<and>
   structuredSegments example_tree =
     [headingSegment (Element (utf16 ''h1'') [] [TextNode (utf16 ''B'')]),
      paragraphSegment (Element (utf16 ''p'') [] [TextNode (utf16 ''A'')])] \<and>
   structuredSegments example_tree \<noteq> documentOrderSegments example_tree"
  by (simp add: documentOrderSegments_def structuredSegments_def unitSegment_def
      querySelectorAll_def example_tree_def headingTags_def headingSegment_def
      paragraphSegment_def utf16_def)

lemma filter_kind_units:
  assumes "\<And>n. P n \<Longrightarrow> unitSegment n = [mk n] \<and> seg_type (mk n) = k"
    and "\<And>n s. \<not> P n \<Longrightarrow> s \<in> set (unitSegment n) \<Longrightarrow> seg_type s \<noteq> k"
  shows "filter (\<lambda>s. seg_type s = k) (concat (map unitSegment ns)) = map mk (filter P ns)"
proof (induction ns)
  case Nil
  then show ?case by simp
next
  case (Cons n ns)
  show ?case
  proof (cases "P n")
    case True
    with assms(1)[of n] Cons show ?thesis by simp
  next
    case False
    with assms(2)[of n] have "filter (\<lambda>s. seg_type s = k) (unitSegment n) = []"
      by (auto simp: filter_empty_conv)
    with False Cons show ?thesis by simp
  qed
qed

lemma kind_headings:
  "filter (\<lambda>s. seg_type s = utf16 ''heading'') (concat (map unitSegment ns)) =
     map headingSegment (filter (\<lambda>n. tagName n \<in> set headingTags) ns)"
  by (rule filter_kind_units)
    (auto simp: unitSegment_def headingSegment_def paragraphSegment_def listSegment_def
      codeSegment_def imageSegment_def Let_def utf16_def split: if_splits)

lemma kind_paragraphs:
  "filter (\<lambda>s. seg_type s = utf16 ''paragraph'') (concat (map unitSegment ns)) =
     map paragraphSegment (filter (\<lambda>n. tagName n \<in> set [utf16 ''p'']) ns)"
  by (rule filter_kind_units)
    (auto simp: unitSegment_def headingSegment_def paragraphSegment_def listSegment_def
      codeSegment_def imageSegment_def headingTags_def Let_def utf16_def split: if_splits)

lemma kind_lists:
  "filter (\<lambda>s. seg_type s = utf16 ''list'') (concat (map unitSegment ns)) =
     map listSegment (filter (\<lambda>n. tagName n \<in> set [utf16 ''ul'', utf16 ''ol'']) ns)"
  by (rule filter_kind_units)
    (auto simp: unitSegment_def headingSegment_def paragraphSegment_def listSegment_def
      codeSegment_def imageSegment_def headingTags_def Let_def utf16_def split: if_splits)

lemma kind_code:
  "filter (\<lambda>s. seg_type s = utf16 ''code'') (concat (map unitSegment ns)) =
     map codeSegment (filter (\<lambda>n. tagName n \<in> set [utf16 ''pre'', utf16 ''code'']) ns)"
  by (rule filter_kind_units)
    (auto simp: unitSegment_def headingSegment_def paragraphSegment_def listSegment_def
      codeSegment_def imageSegment_def headingTags_def Let_def utf16_def split: if_splits)

lemma kind_images:
  "filter (\<lambda>s. seg_type s = utf16 ''image'') (concat (map unitSegment ns)) =
     map imageSegment (filter (\<lambda>n. tagName n \<in> set [utf16 ''img'']) ns)"
  by (rule filter_kind_units)
    (auto simp: unitSegment_def headingSegment_def paragraphSegment_def listSegment_def
      codeSegment_def imageSegment_def headingTags_def Let_def utf16_def split: if_splits)

text \<open>
  C2, amended. For every content tree the extractor emits the recognised structural
  units grouped by kind, in the fixed order heading, paragraph, list, code, image; within
  each kind the segments are in document reading order (depth-first pre-order). The
  sequence is the document-order sequence of segments, stably regrouped by kind.
\<close>

theorem structuredSegments_grouped_by_kind:
  "structuredSegments root =
     concat (map (\<lambda>kind. filter (\<lambda>s. seg_type s = kind) (documentOrderSegments root)) segmentKinds)"
  by (simp add: structuredSegments_def documentOrderSegments_def segmentKinds_def
      querySelectorAll_def kind_headings kind_paragraphs kind_lists kind_code kind_images)

theorem structuredSegments_grouped_by_kind_witness:
  "structuredSegments example_tree =
     concat (map (\<lambda>kind. filter (\<lambda>s. seg_type s = kind) (documentOrderSegments example_tree))
       segmentKinds) \<and>
   map seg_content (structuredSegments example_tree) = [utf16 ''B'', utf16 ''A''] \<and>
   map seg_content (documentOrderSegments example_tree) = [utf16 ''A'', utf16 ''B'']"
proof -
  have "map seg_content (structuredSegments example_tree) = [utf16 ''B'', utf16 ''A''] \<and>
        map seg_content (documentOrderSegments example_tree) = [utf16 ''A'', utf16 ''B'']"
    by (simp add: documentOrderSegments_def structuredSegments_def unitSegment_def
      querySelectorAll_def example_tree_def headingTags_def headingSegment_def
      paragraphSegment_def utf16_def)
  with structuredSegments_grouped_by_kind[of example_tree] show ?thesis by simp
qed



section \<open>Properties of the classifier\<close>

lemma scores_python_sample:
  "scores python_sample =
     [(utf16 ''javascript'', 0), (utf16 ''typescript'', 0), (utf16 ''python'', 1),
      (utf16 ''java'', 0), (utf16 ''csharp'', 0), (utf16 ''php'', 0), (utf16 ''html'', 0),
      (utf16 ''css'', 0), (utf16 ''ruby'', 1), (utf16 ''go'', 0), (utf16 ''rust'', 0),
      (utf16 ''swift'', 0), (utf16 ''kotlin'', 0)]"
  by (simp add: scores_def score_def languagePatterns_def rx_defs char_defs python_sample_def)

lemma scores_ruby_sample:
  "scores ruby_sample =
     [(utf16 ''javascript'', 1), (utf16 ''typescript'', 0), (utf16 ''python'', 2),
      (utf16 ''java'', 0), (utf16 ''csharp'', 0), (utf16 ''php'', 0), (utf16 ''html'', 0),
      (utf16 ''css'', 0), (utf16 ''ruby'', 2), (utf16 ''go'', 0), (utf16 ''rust'', 0),
      (utf16 ''swift'', 1), (utf16 ''kotlin'', 1)]"
  by (simp add: scores_def score_def languagePatterns_def rx_defs char_defs ruby_sample_def)

lemma isCodeBlock_python_sample: "isCodeBlock python_sample"
  by (simp add: isCodeBlock_def codePatterns_def specialChar_def indentPattern_def lineFeed_def
      rx_defs char_defs python_sample_def)

lemma detectLanguage_python_sample: "detectLanguage python_sample = None"
  by (simp add: detectLanguage_def scores_python_sample mathMax_def)

lemma detectLanguage_ruby_sample: "detectLanguage ruby_sample = Some (utf16 ''python'')"
  by (simp add: detectLanguage_def scores_ruby_sample mathMax_def utf16_def)

text \<open>
  C7, as stated, fails: for \<open>"def foo():\n    return 1"\<close> the language detection does
  not answer \<open>python\<close>.
\<close>

theorem detectLanguage_python_sample_counterexample:
  "detectLanguage python_sample \<noteq> Some (utf16 ''python'')"
  by (simp add: detectLanguage_python_sample)

text \<open>
  C7, amended. Classifying \<open>"def foo():\n    return 1"\<close> yields \<open>isCode = true\<close> (the
  Python declaration pattern of the classifier matches) and no language: of python's
  three signature patterns only the first matches, as does one of ruby's, and a maximum
  score of 1 is below the threshold of 2.
\<close>

theorem classify_python_sample:
  "isCodeBlock python_sample \<and> detectLanguage python_sample = None \<and>
   map_of (scores python_sample) (utf16 ''python'') = Some 1 \<and>
   map_of (scores python_sample) (utf16 ''ruby'') = Some 1 \<and>
   mathMax (map snd (scores python_sample)) = 1"
  by (simp add: isCodeBlock_python_sample detectLanguage_python_sample scores_python_sample
      mathMax_def utf16_def)

lemma mathMax_ge: "x \<in> set xs \<Longrightarrow> x \<le> mathMax xs"
  by (induction xs) (auto simp: mathMax_def)

lemma mathMax_mem: "mathMax xs \<in> set xs \<or> mathMax xs = 0"
  by (induction xs) (auto simp: mathMax_def max_def)

lemma mathMax_less_iff: "mathMax xs < 2 \<longleftrightarrow> (\<forall>x\<in>set xs. x < 2)"
  by (induction xs) (auto simp: mathMax_def)

text \<open>
  C8, as stated, fails on a tie: in a Ruby class that mentions \<open>self\<close>, python and
  ruby both reach the maximum score 2, and the detector answers \<open>python\<close>.
\<close>

theorem detectLanguage_tie_counterexample:
  "scores ruby_sample ! 2 = (utf16 ''python'', 2) \<and> scores ruby_sample ! 8 = (utf16 ''ruby'', 2) \<and>
   mathMax (map snd (scores ruby_sample)) = 2 \<and>
   detectLanguage ruby_sample = Some (utf16 ''python'')"
  by (simp add: detectLanguage_ruby_sample scores_ruby_sample mathMax_def)

lemma indented_sample_no_pattern: "\<not> list_ex (\<lambda>pattern. test pattern indented_sample) codePatterns"
  by (simp add: codePatterns_def rx_defs char_defs indented_sample_def)

lemma isCodeBlock_indented_sample: "isCodeBlock indented_sample"
  by (simp add: isCodeBlock_def codePatterns_def specialChar_def indentPattern_def lineFeed_def
      rx_defs char_defs indented_sample_def)

lemma detectLanguage_indented_sample: "detectLanguage indented_sample = None"
  by (simp add: detectLanguage_def scores_def score_def languagePatterns_def mathMax_def
      rx_defs char_defs indented_sample_def)

text \<open>
  C8, amended. For every input text the detector reports a language exactly when the
  maximum pattern match count over the families is at least 2; the language reported is
  then the first family, in the order of the table (javascript, typescript, python, java,
  csharp, php, html, css, ruby, go, rust, swift, kotlin), whose count equals the maximum,
  also when other families tie with it. When the maximum count is below 2 the reported
  language is null, while \<open>isCodeBlock\<close> may still hold by the structural heuristic
  alone: it does for three indented statements that match none of its patterns.
\<close>

theorem detectLanguage_first_maximum:
  "(detectLanguage code = None \<longleftrightarrow> (\<forall>entry\<in>set (scores code). snd entry < 2)) \<and>
   (\<forall>language. detectLanguage code = Some language \<longrightarrow>
      (\<exists>i<length (scores code).
         fst (scores code ! i) = language \<and> 2 \<le> snd (scores code ! i) \<and>
         (\<forall>j<length (scores code). snd (scores code ! j) \<le> snd (scores code ! i)) \<and>
         (\<forall>j<i. snd (scores code ! j) < snd (scores code ! i)))) \<and>
   map fst (scores code) = map fst languagePatterns \<and>
   isCodeBlock indented_sample \<and>
   \<not> list_ex (\<lambda>pattern. test pattern indented_sample) codePatterns \<and>
   detectLanguage indented_sample = None"
proof -
  let ?sc = "scores code"
  let ?m = "mathMax (map snd ?sc)"
  let ?P = "\<lambda>(language, s). s = ?m"
  have small: "?m < 2 \<longleftrightarrow> (\<forall>entry\<in>set ?sc. snd entry < 2)"
    by (simp add: mathMax_less_iff)
  have found: "find ?P ?sc \<noteq> None" if "\<not> ?m < 2"
  proof -
    from that mathMax_mem[of "map snd ?sc"] have "?m \<in> set (map snd ?sc)" by auto
    then obtain e where "e \<in> set ?sc" "snd e = ?m" by auto
    then have "\<exists>e\<in>set ?sc. ?P e" by (auto simp: case_prod_beta)
    then show ?thesis unfolding find_None_iff by blast
  qed
  have none: "detectLanguage code = None \<longleftrightarrow> ?m < 2"
    using found by (auto simp: detectLanguage_def Let_def)
  have some: "\<exists>i<length ?sc.
         fst (?sc ! i) = language \<and> 2 \<le> snd (?sc ! i) \<and>
         (\<forall>j<length ?sc. snd (?sc ! j) \<le> snd (?sc ! i)) \<and>
         (\<forall>j<i. snd (?sc ! j) < snd (?sc ! i))"
    if "detectLanguage code = Some language" for language
  proof -
    from that have big: "\<not> ?m < 2" and "map_option fst (find ?P ?sc) = Some language"
      by (auto simp: detectLanguage_def Let_def split: if_splits)
    then obtain e where e: "find ?P ?sc = Some e" "fst e = language" by auto
    from e(1) have "\<exists>i<length ?sc. ?P (?sc ! i) \<and> e = ?sc ! i \<and> (\<forall>j<i. \<not> ?P (?sc ! j))"
      by (rule find_Some_iff[THEN iffD1])
    then obtain i where i: "i < length ?sc" "?P (?sc ! i)" "e = ?sc ! i" "\<forall>j<i. \<not> ?P (?sc ! j)"
      by (elim exE conjE)
    from i(2) have eq: "snd (?sc ! i) = ?m" by (simp add: case_prod_beta)
    have le: "snd (?sc ! j) \<le> ?m" if "j < length ?sc" for j
      using that by (intro mathMax_ge) simp
    have lt: "snd (?sc ! j) < ?m" if "j < i" for j
    proof -
      from that i(1) have "j < length ?sc" by simp
      from le[OF this] i(4) that show ?thesis by (auto simp: case_prod_beta)
    qed
    from i(1,3) \<open>fst e = language\<close> eq big le lt show ?thesis
      by (intro exI[of _ i]) auto
  qed
  have names: "map fst ?sc = map fst languagePatterns"
    by (simp add: scores_def case_prod_beta)
  from none small have a: "detectLanguage code = None \<longleftrightarrow> (\<forall>entry\<in>set ?sc. snd entry < 2)"
    by simp
  from some have b: "\<forall>language. detectLanguage code = Some language \<longrightarrow>
      (\<exists>i<length ?sc.
         fst (?sc ! i) = language \<and> 2 \<le> snd (?sc ! i) \<and>
         (\<forall>j<length ?sc. snd (?sc ! j) \<le> snd (?sc ! i)) \<and>
         (\<forall>j<i. snd (?sc ! j) < snd (?sc ! i)))"
    by (intro allI impI)
  from a b names isCodeBlock_indented_sample indented_sample_no_pattern
    detectLanguage_indented_sample
  show ?thesis by (intro conjI)
qed

theorem detectLanguage_first_maximum_witness:
  "detectLanguage ruby_sample = Some (utf16 ''python'') \<and>
   (\<exists>i<length (scores ruby_sample).
      fst (scores ruby_sample ! i) = utf16 ''python'' \<and> 2 \<le> snd (scores ruby_sample ! i)) \<and>
   detectLanguage python_sample = None \<and>
   list_all (\<lambda>entry. snd entry < 2) (scores python_sample)"
proof -
  from detectLanguage_first_maximum[of ruby_sample] detectLanguage_ruby_sample
  have "\<exists>i<length (scores ruby_sample).
      fst (scores ruby_sample ! i) = utf16 ''python'' \<and> 2 \<le> snd (scores ruby_sample ! i)"
    by blast
  moreover from detectLanguage_first_maximum[of python_sample] detectLanguage_python_sample
  have "\<forall>entry\<in>set (scores python_sample). snd entry < 2"
    by blast
  ultimately show ?thesis
    using detectLanguage_ruby_sample detectLanguage_python_sample
    by (simp add: list_all_iff)
qed



section \<open>Empty input to translateText\<close>



text \<open>
  \<open>ApiClient.translateText\<close> has the guard: for an empty or white-space-only text it
  returns the text and sends nothing.
\<close>

lemma apiClient_translateText_blank:
  "isBlank text \<Longrightarrow> apiClient_translateText fetch text (client, st) = (Inr text, client, [])"
  by (simp add: apiClient_translateText_def)




end
